theory Spec2Isabelle
  imports Main
begin

section \<open>Task store\<close>

text \<open>
  The table \<open>tasks\<close> of \<open>app/models/task.py\<close>. Timestamps are readings of
  \<open>datetime.utcnow()\<close>, taken as integers. A Python \<open>str\<close> is a \<open>string\<close>, one
  \<open>char\<close> per character, so the model covers code points below 256.
\<close>

type_synonym timestamp = int

record task =
  id_task :: int
  user_id :: string
  title :: string
  description :: "string option"
  completed :: bool
  created_at :: timestamp
  updated_at :: timestamp

text \<open>
  What the tools act on: the rows of the table in insertion order, the value the
  primary-key sequence hands out next, the ids of the rows of the table \<open>user\<close>, the
  condition of the persistence layer (\<open>Some detail\<close>: every statement sent to the
  database raises an exception carrying \<open>detail\<close>), the wall clock as the sequence of
  its successive readings, and the random source of \<open>uuid4()\<close> as the sequence of its
  successive draws. The table \<open>user\<close> is written by the authentication service only;
  \<open>tasks.user_id\<close> and \<open>conversations.user_id\<close> refer to it by a foreign key (the
  comment in \<open>app/models/task.py\<close>, the check in \<open>verify_migration.py\<close>, the field
  in \<open>app/models/conversation.py\<close>), so a row written for an owner id that is not
  there is refused.
\<close>

type_synonym uuid = nat

record world =
  tasks :: "task list"
  next_id :: int
  users :: "string list"
  fault :: "string option"
  clock :: "nat \<Rightarrow> timestamp"
  ticks :: nat
  uuids :: "nat \<Rightarrow> uuid"
  draws :: nat

definition utcnow :: "world \<Rightarrow> timestamp \<times> world" where
  "utcnow w = (clock w (ticks w), w\<lparr>ticks := Suc (ticks w)\<rparr>)"

definition uuid4 :: "world \<Rightarrow> uuid \<times> world" where
  "uuid4 w = (uuids w (draws w), w\<lparr>draws := Suc (draws w)\<rparr>)"

text \<open>
  The database is PostgreSQL. It holds no text with the code point 0, and the driver
  raises on a statement that carries such a text among its parameters. A statement is
  carried out when the persistence layer is reachable and the texts it carries are free
  of that code point.
\<close>

definition storable :: "string \<Rightarrow> bool" where
  "storable s \<longleftrightarrow> CHR 0x00 \<notin> set s"

definition carried_out :: "world \<Rightarrow> string list \<Rightarrow> bool" where
  "carried_out w texts \<longleftrightarrow> fault w = None \<and> list_all storable texts"

text \<open>The texts among the values of a row, and the text of an optional value.\<close>

definition option_texts :: "string option \<Rightarrow> string list" where
  "option_texts x = (case x of None \<Rightarrow> [] | Some s \<Rightarrow> [s])"

definition texts_of :: "task \<Rightarrow> string list" where
  "texts_of r = user_id r # title r # option_texts (description r)"

text \<open>
  What the database guarantees of the table: the primary-key constraint, the monotonic
  sequence behind it, and texts without the code point 0.
\<close>

definition wf_store :: "world \<Rightarrow> bool" where
  "wf_store w \<longleftrightarrow>
     distinct (map id_task (tasks w))
     \<and> (\<forall>r \<in> set (tasks w). id_task r < next_id w \<and> list_all storable (texts_of r))"

section \<open>Tool utilities (\<open>app/mcp/utils.py\<close>)\<close>

text \<open>One entry of the array \<open>list_tasks\<close> returns.\<close>

record task_entry =
  entry_id :: int
  entry_title :: string
  entry_description :: "string option"
  entry_completed :: bool
  entry_created_at :: timestamp
  entry_updated_at :: timestamp

text \<open>
  The objects a tool returns: \<open>{"task_id", "status", "title"}\<close>, \<open>{"error"}\<close>, or the
  array of \<open>list_tasks\<close>.
\<close>

datatype tool_result =
    Success int string string
  | Error string
  | Task_Array "task_entry list"

definition success_response :: "int \<Rightarrow> string \<Rightarrow> string \<Rightarrow> tool_result" where
  "success_response tid status ttl = Success tid status ttl"

definition error_response :: "string \<Rightarrow> tool_result" where
  "error_response message = Error message"

text \<open>\<open>str.isspace\<close> on the code points below 256, and \<open>str.strip()\<close>.\<close>

definition is_space :: "char \<Rightarrow> bool" where
  "is_space c =
     (let n = (of_char c :: nat)
      in (9 \<le> n \<and> n \<le> 13) \<or> (28 \<le> n \<and> n \<le> 32) \<or> n = 133 \<or> n = 160)"

definition strip :: "string \<Rightarrow> string" where
  "strip s = rev (dropWhile is_space (rev (dropWhile is_space s)))"

definition validate_user_id :: "string option \<Rightarrow> tool_result option" where
  "validate_user_id uid =
     (case uid of
        None \<Rightarrow> Some (error_response ''user_id is required'')
      | Some s \<Rightarrow>
          if s = [] then Some (error_response ''user_id is required'')
          else if strip s = [] then Some (error_response ''user_id is required'')
          else None)"

text \<open>Every caller leaves \<open>max_length\<close> at its default, 500.\<close>

definition validate_title :: "string option \<Rightarrow> tool_result option" where
  "validate_title ttl =
     (case ttl of
        None \<Rightarrow> Some (error_response ''title is required'')
      | Some s \<Rightarrow>
          if strip s = [] then Some (error_response ''title cannot be empty'')
          else if length s > 500
            then Some (error_response ''title exceeds maximum length of 500 characters'')
          else None)"

definition validate_task_id :: "int option \<Rightarrow> tool_result option" where
  "validate_task_id tid =
     (case tid of
        None \<Rightarrow> Some (error_response ''task_id is required'')
      | Some _ \<Rightarrow> None)"

definition valid_statuses :: "string list" where
  "valid_statuses = [''all'', ''pending'', ''completed'']"

definition validate_status :: "string option \<Rightarrow> tool_result option" where
  "validate_status status =
     (case status of
        None \<Rightarrow> None
      | Some s \<Rightarrow>
          if s \<notin> set valid_statuses
            then Some (error_response
                   (''status must be 'all', 'pending', or 'completed'' @ [CHR 0x27]))
          else None)"

section \<open>The five tools (\<open>app/mcp/tools/*.py\<close>)\<close>

text \<open>
  Each tool opens a session of its own and commits it, so its effect on the table is
  all or nothing. A parameter the source reads as \<open>Optional\<close> is an \<open>option\<close>; where
  \<open>validate_title\<close> has already turned \<open>None\<close> away, the branch for \<open>None\<close> of the
  title is never taken. The statements a tool sends are the \<open>SELECT\<close> that carries the
  owner id, the \<open>INSERT\<close> that carries the texts of the new row, and the \<open>UPDATE\<close>
  that carries the texts assigned; an exception raised by one of them is caught by the
  handler of the tool.
\<close>

definition add_task ::
  "string \<Rightarrow> string option \<Rightarrow> string option \<Rightarrow> world \<Rightarrow> tool_result \<times> world" where
  "add_task uid ttl descr w =
     (case validate_user_id (Some uid) of
        Some err \<Rightarrow> (err, w)
      | None \<Rightarrow>
         (case validate_title ttl of
            Some err \<Rightarrow> (err, w)
          | None \<Rightarrow>
             (let ttl' = strip (case ttl of Some s \<Rightarrow> s | None \<Rightarrow> []);
                  (c, w1) = utcnow w;
                  (u, w2) = utcnow w1;
                  row = \<lparr>id_task = next_id w2, user_id = uid, title = ttl',
                         description = descr, completed = False,
                         created_at = c, updated_at = u\<rparr>
              in if \<not> carried_out w2 (texts_of row) \<or> uid \<notin> set (users w2)
                   then (error_response ''service unavailable'', w2)
                 else (success_response (id_task row) ''created'' (title row),
                       w2\<lparr>tasks := tasks w2 @ [row], next_id := next_id w2 + 1\<rparr>))))"

definition to_entry :: "task \<Rightarrow> task_entry" where
  "to_entry r =
     \<lparr>entry_id = id_task r, entry_title = title r, entry_description = description r,
      entry_completed = completed r, entry_created_at = created_at r,
      entry_updated_at = updated_at r\<rparr>"

text \<open>
  \<open>ORDER BY created_at DESC\<close> is a stable sort of the selected rows: rows with equal
  timestamps, whose order SQL leaves open, stay in table order.
\<close>

definition list_tasks ::
  "string \<Rightarrow> string option \<Rightarrow> int option \<Rightarrow> world \<Rightarrow> tool_result \<times> world" where
  "list_tasks uid status limit w =
     (case validate_user_id (Some uid) of
        Some err \<Rightarrow> (err, w)
      | None \<Rightarrow>
         (case validate_status status of
            Some err \<Rightarrow> (err, w)
          | None \<Rightarrow>
             (let limit1 = (case limit of None \<Rightarrow> 100 | Some l \<Rightarrow> l)
              in if limit1 < 1 then (error_response ''limit must be at least 1'', w)
                 else
                  (let limit2 = (if limit1 > 1000 then 1000 else limit1)
                   in if \<not> carried_out w [uid]
                        then (error_response ''service unavailable'', w)
                      else
                       (let q0 = filter (\<lambda>r. user_id r = uid) (tasks w);
                            q1 = (if status = Some ''pending''
                                    then filter (\<lambda>r. \<not> completed r) q0
                                  else if status = Some ''completed''
                                    then filter (\<lambda>r. completed r) q0
                                  else q0);
                            q2 = sort_key (\<lambda>r. - created_at r) q1;
                            q3 = take (nat limit2) q2
                        in (Task_Array (map to_entry q3), w))))))"

definition complete_task :: "string \<Rightarrow> int option \<Rightarrow> world \<Rightarrow> tool_result \<times> world" where
  "complete_task uid tid w =
     (case validate_user_id (Some uid) of
        Some err \<Rightarrow> (err, w)
      | None \<Rightarrow>
         (case validate_task_id tid of
            Some err \<Rightarrow> (err, w)
          | None \<Rightarrow>
             if \<not> carried_out w [uid] then (error_response ''service unavailable'', w)
             else
              (case find (\<lambda>r. Some (id_task r) = tid \<and> user_id r = uid) (tasks w) of
                 None \<Rightarrow> (error_response ''task not found'', w)
               | Some t \<Rightarrow>
                  (let (now, w1) = utcnow w;
                       t' = t\<lparr>completed := \<not> completed t, updated_at := now\<rparr>;
                       w2 = w1\<lparr>tasks :=
                              map (\<lambda>r. if id_task r = id_task t
                                       then r\<lparr>completed := completed t',
                                              updated_at := updated_at t'\<rparr>
                                       else r) (tasks w1)\<rparr>;
                       status = (if completed t' then ''completed'' else ''incomplete'')
                   in (success_response (id_task t') status (title t'), w2)))))"

definition update_task ::
  "string \<Rightarrow> int option \<Rightarrow> string option \<Rightarrow> string option \<Rightarrow> world
     \<Rightarrow> tool_result \<times> world" where
  "update_task uid tid ttl descr w =
     (case validate_user_id (Some uid) of
        Some err \<Rightarrow> (err, w)
      | None \<Rightarrow>
         (case validate_task_id tid of
            Some err \<Rightarrow> (err, w)
          | None \<Rightarrow>
             if ttl = None \<and> descr = None
               then (error_response
                       ''at least one of title or description must be provided'', w)
             else
              (case (if ttl \<noteq> None then validate_title ttl else None) of
                 Some err \<Rightarrow> (err, w)
               | None \<Rightarrow>
                  (let ttl' = map_option strip ttl
                   in if \<not> carried_out w [uid]
                        then (error_response ''service unavailable'', w)
                      else
                       (case find (\<lambda>r. Some (id_task r) = tid \<and> user_id r = uid)
                               (tasks w) of
                          None \<Rightarrow> (error_response ''task not found'', w)
                        | Some t \<Rightarrow>
                           (let t1 = (case ttl' of Some s \<Rightarrow> t\<lparr>title := s\<rparr>
                                                 | None \<Rightarrow> t);
                                t2 = (case descr of
                                        Some d \<Rightarrow> t1\<lparr>description := Some d\<rparr>
                                      | None \<Rightarrow> t1);
                                (now, w1) = utcnow w;
                                t3 = t2\<lparr>updated_at := now\<rparr>;
                                w2 = w1\<lparr>tasks :=
                                       map (\<lambda>r. if id_task r = id_task t
                                                then r\<lparr>title := title t3,
                                                       description := description t3,
                                                       updated_at := updated_at t3\<rparr>
                                                else r) (tasks w1)\<rparr>
                            in if \<not> carried_out w1 (option_texts ttl' @ option_texts descr)
                                 then (error_response ''service unavailable'', w1)
                               else (success_response (id_task t3) ''updated'' (title t3),
                                     w2)))))))"

definition delete_task :: "string \<Rightarrow> int option \<Rightarrow> world \<Rightarrow> tool_result \<times> world" where
  "delete_task uid tid w =
     (case validate_user_id (Some uid) of
        Some err \<Rightarrow> (err, w)
      | None \<Rightarrow>
         (case validate_task_id tid of
            Some err \<Rightarrow> (err, w)
          | None \<Rightarrow>
             if \<not> carried_out w [uid] then (error_response ''service unavailable'', w)
             else
              (case find (\<lambda>r. Some (id_task r) = tid \<and> user_id r = uid) (tasks w) of
                 None \<Rightarrow> (error_response ''task not found'', w)
               | Some t \<Rightarrow>
                  (let task_title = title t;
                       task_id_value = id_task t;
                       w1 = w\<lparr>tasks := filter (\<lambda>r. id_task r \<noteq> id_task t) (tasks w)\<rparr>
                   in (success_response task_id_value ''deleted'' task_title, w1)))))"

section \<open>The agent service (\<open>app/services/ai_agent.py\<close>)\<close>

subsection \<open>Tool calls as the provider sends them\<close>

text \<open>
  The exceptions that travel through the modelled code. \<open>APIError\<close> is any failure of
  the call to the model provider.
\<close>

datatype py_exception =
    TypeError
  | JSONDecodeError
  | UnboundLocalError
  | AttributeError
  | ValueError
  | DatabaseError
  | APIError
  | GeminiAPIError

text \<open>
  A value inside the argument object of a tool call: \<open>null\<close>, an integer, a string, or
  anything else (a boolean, a float, an array, an object).
\<close>

datatype pyval = PyNone | PyInt int | PyStr string | PyOther

type_synonym kwargs = "string \<rightharpoonup> pyval"

text \<open>
  The text of \<open>function.arguments\<close>, given by what \<open>json.loads\<close> makes of it: it raises,
  or returns a \<open>dict\<close>, or returns some other value.
\<close>

datatype json_value = Dict kwargs | Non_Dict

datatype json_text = Malformed | Wellformed json_value

definition json_loads :: "json_text \<Rightarrow> py_exception + json_value" where
  "json_loads s = (case s of Malformed \<Rightarrow> Inl JSONDecodeError | Wellformed v \<Rightarrow> Inr v)"

record tool_call =
  call_id :: string
  call_name :: string
  call_arguments :: json_text

record assistant_message =
  am_content :: "string option"
  am_tool_calls :: "tool_call list"

text \<open>
  The entries of the running \<open>messages\<close> array: a plain \<open>{"role", "content"}\<close> entry,
  the assistant's entry carrying its tool calls, and a \<open>tool\<close> entry carrying the
  serialised result of one call.
\<close>

datatype 'r message =
    Chat_Message string string
  | Assistant_Calls "string option" "tool_call list"
  | Tool_Message string 'r

subsection \<open>The tool schema handed to the provider\<close>

record property =
  prop_name :: string
  prop_type :: string
  prop_enum :: "string list option"
  prop_description :: string

record tool_schema =
  schema_name :: string
  schema_description :: string
  schema_properties :: "property list"
  schema_required :: "string list option"

definition tools :: "tool_schema list" where
  "tools =
    [\<lparr>schema_name = ''add_task'',
      schema_description =
        ''Create a new task for the user with a title and optional description'',
      schema_properties =
        [\<lparr>prop_name = ''title'', prop_type = ''string'', prop_enum = None,
          prop_description = ''The task title (max 500 characters)''\<rparr>,
         \<lparr>prop_name = ''description'', prop_type = ''string'', prop_enum = None,
          prop_description = ''Optional task description''\<rparr>],
      schema_required = Some [''title'']\<rparr>,
     \<lparr>schema_name = ''list_tasks'',
      schema_description =
        ''Retrieve the user's tasks, optionally filtered by completion status'',
      schema_properties =
        [\<lparr>prop_name = ''status'', prop_type = ''string'',
          prop_enum = Some [''all'', ''pending'', ''completed''],
          prop_description =
            ''Filter by status: 'all', 'pending', or 'completed' (default: 'all')''\<rparr>,
         \<lparr>prop_name = ''limit'', prop_type = ''integer'', prop_enum = None,
          prop_description =
            ''Maximum number of tasks to return (default: 100, max: 1000)''\<rparr>],
      schema_required = None\<rparr>,
     \<lparr>schema_name = ''complete_task'',
      schema_description =
        ''Toggle the completion status of a task (mark as done or undone)'',
      schema_properties =
        [\<lparr>prop_name = ''task_id'', prop_type = ''integer'', prop_enum = None,
          prop_description = ''The ID of the task to toggle''\<rparr>],
      schema_required = Some [''task_id'']\<rparr>,
     \<lparr>schema_name = ''update_task'',
      schema_description = ''Update a task's title and/or description'',
      schema_properties =
        [\<lparr>prop_name = ''task_id'', prop_type = ''integer'', prop_enum = None,
          prop_description = ''The ID of the task to update''\<rparr>,
         \<lparr>prop_name = ''title'', prop_type = ''string'', prop_enum = None,
          prop_description = ''New task title (max 500 characters)''\<rparr>,
         \<lparr>prop_name = ''description'', prop_type = ''string'', prop_enum = None,
          prop_description = ''New task description''\<rparr>],
      schema_required = Some [''task_id'', ''title'']\<rparr>,
     \<lparr>schema_name = ''delete_task'',
      schema_description = ''Delete a task permanently'',
      schema_properties =
        [\<lparr>prop_name = ''task_id'', prop_type = ''integer'', prop_enum = None,
          prop_description = ''The ID of the task to delete''\<rparr>],
      schema_required = Some [''task_id'']\<rparr>]"

text \<open>
  The schema of the sibling service, \<open>get_tool_definitions\<close> of phase-03
  (\<open>app/mcp/server.py\<close>), reduced to names and required lists.
\<close>

definition get_tool_definitions :: "(string \<times> string list) list" where
  "get_tool_definitions =
     [(''add_task'', [''title'']), (''list_tasks'', []), (''complete_task'', [''task_id'']),
      (''delete_task'', [''task_id'']), (''update_task'', [''task_id''])]"

text \<open>The entry of a schema array for a tool name, and the parameters it requires.\<close>

definition required_of :: "tool_schema list \<Rightarrow> string \<Rightarrow> string list option" where
  "required_of schemas name =
     (case find (\<lambda>s. schema_name s = name) schemas of
        None \<Rightarrow> None
      | Some s \<Rightarrow> Some (case schema_required s of None \<Rightarrow> [] | Some r \<Rightarrow> r))"

subsection \<open>Dispatch\<close>

text \<open>
  Python binds the entries of \<open>args\<close> to the parameters of the tool: an entry no
  parameter is named after, or a parameter without default that no entry gives, is a
  \<open>TypeError\<close> raised by the call itself. What a tool does with a value that is not of
  the parameter's declared type depends on Python's dynamic typing and on the database
  driver; that behaviour is the parameter \<open>dyn\<close>.
\<close>

type_synonym untyped =
  "string \<Rightarrow> kwargs \<Rightarrow> world \<Rightarrow> py_exception + tool_result \<times> world"

definition arg :: "kwargs \<Rightarrow> string \<Rightarrow> pyval \<Rightarrow> pyval" where
  "arg a k dflt = (case a k of None \<Rightarrow> dflt | Some v \<Rightarrow> v)"

fun opt_str :: "pyval \<Rightarrow> string option option" where
  "opt_str PyNone = Some None"
| "opt_str (PyStr s) = Some (Some s)"
| "opt_str _ = None"

fun opt_int :: "pyval \<Rightarrow> int option option" where
  "opt_int PyNone = Some None"
| "opt_int (PyInt i) = Some (Some i)"
| "opt_int _ = None"

definition call_add_task ::
  "untyped \<Rightarrow> kwargs \<Rightarrow> world \<Rightarrow> py_exception + tool_result \<times> world" where
  "call_add_task dyn a w =
     (if \<not> dom a \<subseteq> {''user_id'', ''title'', ''description''} then Inl TypeError
      else if ''user_id'' \<notin> dom a \<or> ''title'' \<notin> dom a then Inl TypeError
      else (case (a ''user_id'', opt_str (arg a ''title'' PyNone),
                  opt_str (arg a ''description'' PyNone)) of
              (Some (PyStr u), Some t, Some d) \<Rightarrow> Inr (add_task u t d w)
            | _ \<Rightarrow> dyn ''add_task'' a w))"

definition call_list_tasks ::
  "untyped \<Rightarrow> kwargs \<Rightarrow> world \<Rightarrow> py_exception + tool_result \<times> world" where
  "call_list_tasks dyn a w =
     (if \<not> dom a \<subseteq> {''user_id'', ''status'', ''limit''} then Inl TypeError
      else if ''user_id'' \<notin> dom a then Inl TypeError
      else (case (a ''user_id'', opt_str (arg a ''status'' (PyStr ''all'')),
                  opt_int (arg a ''limit'' (PyInt 100))) of
              (Some (PyStr u), Some s, Some l) \<Rightarrow> Inr (list_tasks u s l w)
            | _ \<Rightarrow> dyn ''list_tasks'' a w))"

definition call_complete_task ::
  "untyped \<Rightarrow> kwargs \<Rightarrow> world \<Rightarrow> py_exception + tool_result \<times> world" where
  "call_complete_task dyn a w =
     (if \<not> dom a \<subseteq> {''user_id'', ''task_id''} then Inl TypeError
      else if ''user_id'' \<notin> dom a \<or> ''task_id'' \<notin> dom a then Inl TypeError
      else (case (a ''user_id'', opt_int (arg a ''task_id'' PyNone)) of
              (Some (PyStr u), Some i) \<Rightarrow> Inr (complete_task u i w)
            | _ \<Rightarrow> dyn ''complete_task'' a w))"

definition call_update_task ::
  "untyped \<Rightarrow> kwargs \<Rightarrow> world \<Rightarrow> py_exception + tool_result \<times> world" where
  "call_update_task dyn a w =
     (if \<not> dom a \<subseteq> {''user_id'', ''task_id'', ''title'', ''description''} then Inl TypeError
      else if ''user_id'' \<notin> dom a \<or> ''task_id'' \<notin> dom a then Inl TypeError
      else (case (a ''user_id'', opt_int (arg a ''task_id'' PyNone),
                  opt_str (arg a ''title'' PyNone),
                  opt_str (arg a ''description'' PyNone)) of
              (Some (PyStr u), Some i, Some t, Some d) \<Rightarrow> Inr (update_task u i t d w)
            | _ \<Rightarrow> dyn ''update_task'' a w))"

definition call_delete_task ::
  "untyped \<Rightarrow> kwargs \<Rightarrow> world \<Rightarrow> py_exception + tool_result \<times> world" where
  "call_delete_task dyn a w =
     (if \<not> dom a \<subseteq> {''user_id'', ''task_id''} then Inl TypeError
      else if ''user_id'' \<notin> dom a \<or> ''task_id'' \<notin> dom a then Inl TypeError
      else (case (a ''user_id'', opt_int (arg a ''task_id'' PyNone)) of
              (Some (PyStr u), Some i) \<Rightarrow> Inr (delete_task u i w)
            | _ \<Rightarrow> dyn ''delete_task'' a w))"

text \<open>
  \<open>_invoke_tool\<close>: the item assignment \<open>args["user_id"] = user_id\<close> raises
  \<open>TypeError\<close> on a value that is not a \<open>dict\<close>.
\<close>

definition invoke_tool ::
  "untyped \<Rightarrow> string \<Rightarrow> string \<Rightarrow> json_value \<Rightarrow> world
     \<Rightarrow> py_exception + tool_result \<times> world" where
  "invoke_tool dyn tool_name uid args w =
     (case args of
        Non_Dict \<Rightarrow> Inl TypeError
      | Dict a0 \<Rightarrow>
         (let a = a0(''user_id'' \<mapsto> PyStr uid)
          in if tool_name = ''add_task'' then call_add_task dyn a w
             else if tool_name = ''list_tasks'' then call_list_tasks dyn a w
             else if tool_name = ''complete_task'' then call_complete_task dyn a w
             else if tool_name = ''update_task'' then call_update_task dyn a w
             else if tool_name = ''delete_task'' then call_delete_task dyn a w
             else Inr (Error (''Unknown tool: '' @ tool_name), w)))"

subsection \<open>The agentic loop\<close>

text \<open>
  The provider client: the messages and the tool schema go in, and the message of the
  first choice comes back, or the call (or the reading of its first choice) raises.
\<close>

type_synonym provider =
  "tool_result message list \<Rightarrow> tool_schema list \<Rightarrow> py_exception + assistant_message"

definition max_iterations :: nat where
  "max_iterations = 5"

definition completion_message :: string where
  "completion_message = ''I've completed the requested actions.''"

text \<open>The \<open>for\<close> loop over the tool calls of one assistant message.\<close>

fun execute_tool_calls ::
  "untyped \<Rightarrow> string \<Rightarrow> tool_call list \<Rightarrow> tool_result message list \<Rightarrow> world
     \<Rightarrow> (py_exception + tool_result message list) \<times> world" where
  "execute_tool_calls dyn uid [] messages w = (Inr messages, w)"
| "execute_tool_calls dyn uid (tc # tcs) messages w =
     (case json_loads (call_arguments tc) of
        Inl e \<Rightarrow> (Inl e, w)
      | Inr function_args \<Rightarrow>
         (case invoke_tool dyn (call_name tc) uid function_args w of
            Inl e \<Rightarrow> (Inl e, w)
          | Inr (tool_result, w') \<Rightarrow>
              execute_tool_calls dyn uid tcs
                (messages @ [Tool_Message (call_id tc) tool_result]) w'))"

text \<open>
  How the \<open>while\<close> loop is left: by an exception, or with the loop variables as they
  stand: the last assistant message, if any, and \<open>response_content\<close>, bound only by
  the \<open>break\<close> branch. The counter \<open>iteration\<close> is the number of calls made to the
  provider.
\<close>

datatype loop_exit =
    Raised py_exception
  | Exited "assistant_message option" "string option option"

function agentic_loop ::
  "provider \<Rightarrow> untyped \<Rightarrow> string \<Rightarrow> nat \<Rightarrow> tool_result message list
     \<Rightarrow> assistant_message option \<Rightarrow> world \<Rightarrow> loop_exit \<times> nat \<times> world" where
  "agentic_loop client dyn uid iteration messages previous w =
     (if iteration < max_iterations then
        (case client messages tools of
           Inl e \<Rightarrow> (Raised e, iteration + 1, w)
         | Inr am \<Rightarrow>
            if am_tool_calls am \<noteq> [] then
              (case execute_tool_calls dyn uid (am_tool_calls am)
                      (messages @ [Assistant_Calls (am_content am) (am_tool_calls am)]) w of
                 (Inl e, w') \<Rightarrow> (Raised e, iteration + 1, w')
               | (Inr messages', w') \<Rightarrow>
                   agentic_loop client dyn uid (iteration + 1) messages' (Some am) w')
            else (Exited (Some am) (Some (am_content am)), iteration + 1, w))
      else (Exited previous None, iteration, w))"
  by pat_completeness auto
termination
  by (relation "measure (\<lambda>(client, dyn, uid, iteration, messages, previous, w).
                  max_iterations - iteration)") auto

declare agentic_loop.simps [simp del]

text \<open>A Python string is truthy when it is there and not empty.\<close>

definition truthy :: "string option \<Rightarrow> bool" where
  "truthy c = (case c of None \<Rightarrow> False | Some s \<Rightarrow> s \<noteq> [])"

text \<open>
  \<open>generate_response\<close>: the answer text (or the exception that leaves the method), the
  number of calls made to the provider, and the store after the tools have run. The
  attributes \<open>self.client\<close> and \<open>self.system_prompt\<close> are parameters; \<open>self.tools\<close>
  is the constant \<open>tools\<close>. The calls that write the log are left out.
\<close>

definition generate_response ::
  "provider \<Rightarrow> untyped \<Rightarrow> string \<Rightarrow> tool_result message list \<Rightarrow> string \<Rightarrow> world
     \<Rightarrow> (py_exception + string option) \<times> nat \<times> world" where
  "generate_response client dyn system_prompt conversation_history uid w =
     (let messages = Chat_Message ''system'' system_prompt # conversation_history
      in case agentic_loop client dyn uid 0 messages None w of
           (Raised e, iteration, w') \<Rightarrow> (Inl e, iteration, w')
         | (Exited assistant_message response_content, iteration, w') \<Rightarrow>
             (if iteration \<ge> max_iterations then
                (case assistant_message of
                   None \<Rightarrow> (Inl UnboundLocalError, iteration, w')
                 | Some am \<Rightarrow>
                     (Inr (if truthy (am_content am) then am_content am
                           else Some completion_message), iteration, w'))
              else
                (case response_content of
                   None \<Rightarrow> (Inl UnboundLocalError, iteration, w')
                 | Some c \<Rightarrow> (Inr c, iteration, w'))))"

section \<open>Conversations and messages\<close>

text \<open>
  The tables \<open>conversations\<close> and \<open>messages\<close> (\<open>app/models\<close>); the conversation of
  phase-03 has no title. A session works on a copy of the two tables: a commit makes the
  copy the stored state, a rollback discards it.
\<close>

record conversation =
  conv_id :: uuid
  conv_user_id :: string
  conv_title :: "string option"
  conv_created_at :: timestamp
  conv_updated_at :: timestamp

record message_row =
  msg_id :: uuid
  msg_conversation_id :: uuid
  msg_role :: string
  msg_content :: string
  msg_created_at :: timestamp

record chat_store =
  conversation_rows :: "conversation list"
  message_rows :: "message_row list"

text \<open>\<open>Conversation(user_id=...)\<close>: the default factories draw the id and read the clock.\<close>

definition new_conversation :: "string \<Rightarrow> world \<Rightarrow> conversation \<times> world" where
  "new_conversation uid w =
     (let (i, w1) = uuid4 w; (c, w2) = utcnow w1; (u, w3) = utcnow w2
      in (\<lparr>conv_id = i, conv_user_id = uid, conv_title = None,
           conv_created_at = c, conv_updated_at = u\<rparr>, w3))"

text \<open>
  \<open>session.add\<close> of a new conversation followed by the statement that writes it: the
  statement raises when it is not carried out, when the owner id is not that of a user,
  or when the key is taken.
\<close>

definition add_conversation ::
  "string \<Rightarrow> chat_store \<Rightarrow> world \<Rightarrow> (conversation \<times> chat_store) option \<times> world" where
  "add_conversation uid cs w =
     (let (c, w1) = new_conversation uid w
      in if \<not> carried_out w1 [uid] \<or> uid \<notin> set (users w1)
            \<or> conv_id c \<in> conv_id ` set (conversation_rows cs)
           then (None, w1)
         else (Some (c, cs\<lparr>conversation_rows := conversation_rows cs @ [c]\<rparr>), w1))"

text \<open>
  \<open>Message(conversation_id=..., role=..., content=...)\<close> and the statement that writes
  it; the column \<open>content\<close> is not nullable, so a \<open>None\<close> content makes the statement
  raise as well.
\<close>

definition add_message ::
  "uuid \<Rightarrow> string \<Rightarrow> string option \<Rightarrow> chat_store \<Rightarrow> world
     \<Rightarrow> (message_row \<times> chat_store) option \<times> world" where
  "add_message cid role content cs w =
     (let (i, w1) = uuid4 w; (c, w2) = utcnow w1
      in case content of
           None \<Rightarrow> (None, w2)
         | Some text_content \<Rightarrow>
            (let m = \<lparr>msg_id = i, msg_conversation_id = cid, msg_role = role,
                      msg_content = text_content, msg_created_at = c\<rparr>
             in if \<not> carried_out w2 [role, text_content] \<or> i \<in> msg_id ` set (message_rows cs)
                  then (None, w2)
                else (Some (m, cs\<lparr>message_rows := message_rows cs @ [m]\<rparr>), w2)))"

section \<open>The chat endpoint of phase-3 (\<open>app/routes/chat.py\<close>)\<close>

record chat_request =
  req_message :: string
  req_conversation_id :: "uuid option"

datatype http_response =
    HTTPException nat
  | ChatResponse uuid string timestamp

text \<open>
  The first block of \<open>send_chat_message\<close>: the conversation named by the request, if
  the caller owns it, and a new one otherwise. \<open>None\<close>: a statement raised.
\<close>

definition load_or_create_conversation ::
  "string \<Rightarrow> uuid option \<Rightarrow> chat_store \<Rightarrow> world
     \<Rightarrow> (conversation \<times> chat_store) option \<times> world" where
  "load_or_create_conversation uid conversation_id cs w =
     (case conversation_id of
        Some cid \<Rightarrow>
          if \<not> carried_out w [uid] then (None, w)
          else
           (case find (\<lambda>c. conv_id c = cid \<and> conv_user_id c = uid)
                   (conversation_rows cs) of
              Some conversation \<Rightarrow> (Some (conversation, cs), w)
            | None \<Rightarrow> add_conversation uid cs w)
      | None \<Rightarrow> add_conversation uid cs w)"

text \<open>
  The expression \<open>msg.role.value\<close> on a row read from the table. The column \<open>role\<close>
  is declared \<open>str\<close> (\<open>app/models/message.py\<close>), so the role of such a row is a plain
  string, which has no attribute \<open>value\<close>.
\<close>

definition role_value :: "string \<Rightarrow> py_exception + string" where
  "role_value role = Inl AttributeError"

text \<open>
  The loop that builds \<open>conversation_history\<close> from the rows read, leaving out the
  message just written.
\<close>

fun history_entries ::
  "uuid \<Rightarrow> message_row list \<Rightarrow> tool_result message list
     \<Rightarrow> py_exception + tool_result message list" where
  "history_entries current [] conversation_history = Inr conversation_history"
| "history_entries current (msg # msgs) conversation_history =
     (if msg_id msg \<noteq> current then
        (case role_value (msg_role msg) of
           Inl e \<Rightarrow> Inl e
         | Inr r \<Rightarrow>
             history_entries current msgs
               (conversation_history @ [Chat_Message r (msg_content msg)]))
      else history_entries current msgs conversation_history)"

text \<open>
  The second block: the history handed to the agent, built from the 50 rows of the
  conversation that come first by \<open>created_at\<close> and followed by the message just
  written, or the exception raised on the way.
\<close>

definition conversation_history_for ::
  "conversation \<Rightarrow> message_row \<Rightarrow> string \<Rightarrow> chat_store
     \<Rightarrow> py_exception + tool_result message list" where
  "conversation_history_for conversation user_message message_content cs =
     (let rows = take 50 (sort_key msg_created_at
                    (filter (\<lambda>m. msg_conversation_id m = conv_id conversation)
                       (message_rows cs)))
      in case history_entries (msg_id user_message) rows [] of
           Inl e \<Rightarrow> Inl e
         | Inr conversation_history \<Rightarrow>
             Inr (conversation_history @ [Chat_Message ''user'' message_content]))"

text \<open>
  \<open>send_chat_message\<close>, called once the request has passed the checks of its schema.
  The session of the endpoint holds the conversation and the messages; the tools called
  inside \<open>generate_response\<close> commit to the task table in sessions of their own.
  Wherever the endpoint rolls back, the chat store it returns is the one it was given.
  An exception other than \<open>HTTPException\<close> ends as status 500.
\<close>

definition send_chat_message ::
  "provider \<Rightarrow> untyped \<Rightarrow> string \<Rightarrow> string \<Rightarrow> chat_request \<Rightarrow> chat_store \<Rightarrow> world
     \<Rightarrow> http_response \<times> chat_store \<times> world" where
  "send_chat_message client dyn system_prompt uid chat_data cs w =
     (let message_content = strip (req_message chat_data)
      in if message_content = [] then (HTTPException 422, cs, w)
         else
          (case load_or_create_conversation uid (req_conversation_id chat_data) cs w of
             (None, w1) \<Rightarrow> (HTTPException 500, cs, w1)
           | (Some (conversation, cs1), w1) \<Rightarrow>
              (case add_message (conv_id conversation) ''user'' (Some message_content) cs1 w1 of
                 (None, w2) \<Rightarrow> (HTTPException 500, cs, w2)
               | (Some (user_message, cs2), w2) \<Rightarrow>
                  (case conversation_history_for conversation user_message
                          message_content cs2 of
                     Inl e \<Rightarrow> (HTTPException 500, cs, w2)
                   | Inr conversation_history \<Rightarrow>
                      (case generate_response client dyn system_prompt conversation_history
                              uid w2 of
                         (Inl e, iteration, w3) \<Rightarrow> (HTTPException 503, cs, w3)
                       | (Inr ai_response, iteration, w3) \<Rightarrow>
                          (case add_message (conv_id conversation) ''assistant'' ai_response
                                  cs2 w3 of
                             (None, w4) \<Rightarrow> (HTTPException 500, cs, w4)
                           | (Some (assistant_message, cs3), w4) \<Rightarrow>
                              (let (now, w5) = utcnow w4
                               in (ChatResponse (conv_id conversation)
                                     (msg_content assistant_message) now, cs3, w5))))))))"

section \<open>The chat service of phase-03\<close>

subsection \<open>Services (\<open>app/services\<close>)\<close>

text \<open>
  \<open>get_or_create_conversation\<close>: every write is committed at once. The lookup by id
  carries no text; the exception the driver raises on the owner id of the second lookup
  is a \<open>ValueError\<close>.
\<close>

definition get_or_create_conversation ::
  "string \<Rightarrow> uuid option \<Rightarrow> chat_store \<Rightarrow> world
     \<Rightarrow> (py_exception + conversation) \<times> chat_store \<times> world" where
  "get_or_create_conversation uid conversation_id cs w =
     (case fault w of
        Some detail \<Rightarrow> (Inl DatabaseError, cs, w)
      | None \<Rightarrow>
         (case (case conversation_id of
                  None \<Rightarrow> None
                | Some cid \<Rightarrow> find (\<lambda>c. conv_id c = cid) (conversation_rows cs)) of
            Some conversation \<Rightarrow>
              if conv_user_id conversation = uid then (Inr conversation, cs, w)
              else (Inl ValueError, cs, w)
          | None \<Rightarrow>
             if \<not> storable uid then (Inl ValueError, cs, w)
             else
              (case find (\<lambda>c. conv_user_id c = uid) (conversation_rows cs) of
                 Some conversation \<Rightarrow> (Inr conversation, cs, w)
               | None \<Rightarrow>
                  (case add_conversation uid cs w of
                     (None, w1) \<Rightarrow> (Inl DatabaseError, cs, w1)
                   | (Some (conversation, cs1), w1) \<Rightarrow> (Inr conversation, cs1, w1)))))"

definition store_message ::
  "uuid \<Rightarrow> string \<Rightarrow> string option \<Rightarrow> chat_store \<Rightarrow> world
     \<Rightarrow> (py_exception + message_row) \<times> chat_store \<times> world" where
  "store_message conversation_id role content cs w =
     (case add_message conversation_id role content cs w of
        (None, w1) \<Rightarrow> (Inl DatabaseError, cs, w1)
      | (Some (m, cs1), w1) \<Rightarrow> (Inr m, cs1, w1))"

text \<open>
  The loop of \<open>load_conversation_history\<close> over the messages, newest first. The
  tokeniser is a parameter: \<open>encode_len content\<close> is \<open>len(encoding.encode(content))\<close>.
\<close>

fun history_loop ::
  "(string \<Rightarrow> nat) \<Rightarrow> int \<Rightarrow> message_row list \<Rightarrow> (string \<times> string) list \<Rightarrow> int
     \<Rightarrow> (string \<times> string) list" where
  "history_loop encode_len max_tokens [] result total_tokens = result"
| "history_loop encode_len max_tokens (msg # msgs) result total_tokens =
     (let msg_tokens = int (encode_len (msg_content msg))
      in if total_tokens + msg_tokens > max_tokens then result
         else history_loop encode_len max_tokens msgs
                ((msg_role msg, msg_content msg) # result) (total_tokens + msg_tokens))"

text \<open>The rows of a conversation, newest first (\<open>ORDER BY created_at DESC\<close>, stable).\<close>

definition newest_first :: "uuid \<Rightarrow> chat_store \<Rightarrow> message_row list" where
  "newest_first conversation_id cs =
     sort_key (\<lambda>m. - msg_created_at m)
       (filter (\<lambda>m. msg_conversation_id m = conversation_id) (message_rows cs))"

definition load_conversation_history ::
  "(string \<Rightarrow> nat) \<Rightarrow> uuid \<Rightarrow> int \<Rightarrow> chat_store \<Rightarrow> world
     \<Rightarrow> py_exception + (string \<times> string) list" where
  "load_conversation_history encode_len conversation_id max_tokens cs w =
     (case fault w of
        Some detail \<Rightarrow> Inl DatabaseError
      | None \<Rightarrow>
          Inr (history_loop encode_len max_tokens (newest_first conversation_id cs) [] 0))"

subsection \<open>Agent (\<open>app/ai/agent.py\<close>, \<open>app/mcp/server.py\<close>)\<close>

text \<open>
  The tool functions of phase-03 work on a task model that is not part of the sources at
  hand; they are the parameter \<open>tool_func\<close>, which returns the tool's value or the text
  of the exception it raises.
\<close>

datatype 'v tool_reply = Tool_Value 'v | Tool_Failure string

type_synonym 'v tool_functions =
  "string \<Rightarrow> kwargs \<Rightarrow> world \<Rightarrow> (string + 'v) \<times> world"

type_synonym 'v provider03 =
  "'v tool_reply message list \<Rightarrow> (string \<times> string list) list option
     \<Rightarrow> py_exception + assistant_message"

text \<open>
  The names \<open>tool_map\<close> knows. The item assignment of \<open>execute_tool\<close> raises on
  arguments that are not a \<open>dict\<close>; the text of that exception varies with the type
  of the value and is given in one wording.
\<close>

definition tool_map :: "string list" where
  "tool_map = [''add_task'', ''list_tasks'', ''complete_task'', ''delete_task'', ''update_task'']"

definition execute_tool ::
  "'v tool_functions \<Rightarrow> string \<Rightarrow> json_value \<Rightarrow> string \<Rightarrow> world \<Rightarrow> (string + 'v) \<times> world"
  where
  "execute_tool tool_func tool_name arguments uid w =
     (if tool_name \<notin> set tool_map
        then (Inl (''Unknown tool: '' @ tool_name), w)
      else (case arguments of
              Non_Dict \<Rightarrow> (Inl ''object does not support item assignment'', w)
            | Dict a \<Rightarrow> tool_func tool_name (a(''user_id'' \<mapsto> PyStr uid)) w))"

text \<open>The \<open>for\<close> loop of \<open>invoke_agent\<close> over the requested tool calls.\<close>

fun agent_tool_calls ::
  "'v tool_functions \<Rightarrow> string \<Rightarrow> tool_call list \<Rightarrow> 'v tool_reply message list
     \<Rightarrow> (string \<times> json_value \<times> 'v) list \<Rightarrow> world
     \<Rightarrow> (py_exception + 'v tool_reply message list \<times> (string \<times> json_value \<times> 'v) list)
         \<times> world" where
  "agent_tool_calls tool_func uid [] messages tool_calls_list w =
     (Inr (messages, tool_calls_list), w)"
| "agent_tool_calls tool_func uid (tc # tcs) messages tool_calls_list w =
     (case json_loads (call_arguments tc) of
        Inl e \<Rightarrow> (Inl e, w)
      | Inr tool_args \<Rightarrow>
         (case execute_tool tool_func (call_name tc) tool_args uid w of
            (Inr tool_result, w') \<Rightarrow>
               agent_tool_calls tool_func uid tcs
                 (messages @ [Assistant_Calls None [tc],
                              Tool_Message (call_id tc) (Tool_Value tool_result)])
                 (tool_calls_list @ [(call_name tc, tool_args, tool_result)]) w'
          | (Inl e, w') \<Rightarrow>
               agent_tool_calls tool_func uid tcs
                 (messages @ [Tool_Message (call_id tc)
                                (Tool_Failure (''Tool execution failed: '' @ e))])
                 tool_calls_list w'))"

record 'v agent_response =
  resp_content :: "string option"
  resp_tool_calls :: "(string \<times> json_value \<times> 'v) list"

text \<open>
  \<open>invoke_agent\<close>. \<open>get_client\<close> is \<open>None\<close> when the API key is not configured and
  \<open>get_client()\<close> raises; every exception raised after that is turned into
  \<open>GeminiAPIError\<close>.
\<close>

definition invoke_agent ::
  "'v provider03 option \<Rightarrow> 'v tool_functions \<Rightarrow> string \<Rightarrow> string
     \<Rightarrow> (string \<times> string) list \<Rightarrow> string \<Rightarrow> (string \<times> string list) list option \<Rightarrow> world
     \<Rightarrow> (py_exception + 'v agent_response) \<times> world" where
  "invoke_agent get_client tool_func system_prompt uid conversation_history user_message
     tools_arg w =
     (case get_client of
        None \<Rightarrow> (Inl ValueError, w)
      | Some client \<Rightarrow>
         (let tools1 = (case tools_arg of None \<Rightarrow> get_tool_definitions | Some ts \<Rightarrow> ts);
              messages = [Chat_Message ''system'' system_prompt]
                         @ map (\<lambda>(r, c). Chat_Message r c) conversation_history
                         @ [Chat_Message ''user'' user_message]
          in case client messages (Some tools1) of
               Inl e \<Rightarrow> (Inl GeminiAPIError, w)
             | Inr message \<Rightarrow>
                if am_tool_calls message \<noteq> [] then
                  (case agent_tool_calls tool_func uid (am_tool_calls message) messages [] w of
                     (Inl e, w') \<Rightarrow> (Inl GeminiAPIError, w')
                   | (Inr (messages', tool_calls_list), w') \<Rightarrow>
                      (case client messages' None of
                         Inl e \<Rightarrow> (Inl GeminiAPIError, w')
                       | Inr final_response \<Rightarrow>
                           (Inr \<lparr>resp_content = am_content final_response,
                                 resp_tool_calls = tool_calls_list\<rparr>, w')))
                else (Inr \<lparr>resp_content = am_content message, resp_tool_calls = []\<rparr>, w)))"

subsection \<open>Endpoint (\<open>app/routes/chat.py\<close>)\<close>

datatype 'v chat_reply =
    HTTP_Error nat
  | Chat_Reply uuid string "(string \<times> json_value \<times> 'v) list"

text \<open>
  \<open>chat_endpoint\<close>. An exception of \<open>invoke_agent\<close> other than \<open>GeminiAPIError\<close> ends
  as status 500 on either branch of the test on its text.
\<close>

definition chat_endpoint ::
  "'v provider03 option \<Rightarrow> 'v tool_functions \<Rightarrow> (string \<Rightarrow> nat) \<Rightarrow> string \<Rightarrow> string
     \<Rightarrow> chat_request \<Rightarrow> chat_store \<Rightarrow> world \<Rightarrow> 'v chat_reply \<times> chat_store \<times> world" where
  "chat_endpoint get_client tool_func encode_len system_prompt uid request cs w =
     (if length (req_message request) > 10000 then (HTTP_Error 422, cs, w)
      else
       (case get_or_create_conversation uid (req_conversation_id request) cs w of
          (Inl e, cs1, w1) \<Rightarrow> (HTTP_Error (if e = ValueError then 403 else 500), cs1, w1)
        | (Inr conversation, cs1, w1) \<Rightarrow>
           (case load_conversation_history encode_len (conv_id conversation) 2000 cs1 w1 of
              Inl e \<Rightarrow> (HTTP_Error 500, cs1, w1)
            | Inr history \<Rightarrow>
               (case store_message (conv_id conversation) ''user''
                       (Some (req_message request)) cs1 w1 of
                  (Inl e, cs2, w2) \<Rightarrow> (HTTP_Error 500, cs2, w2)
                | (Inr user_row, cs2, w2) \<Rightarrow>
                   (case invoke_agent get_client tool_func system_prompt uid history
                           (req_message request) (Some get_tool_definitions) w2 of
                      (Inl e, w3) \<Rightarrow>
                        (HTTP_Error (if e = GeminiAPIError then 503 else 500), cs2, w3)
                    | (Inr agent_response, w3) \<Rightarrow>
                       (case store_message (conv_id conversation) ''assistant''
                               (resp_content agent_response) cs2 w3 of
                          (Inl e, cs3, w4) \<Rightarrow> (HTTP_Error 500, cs3, w4)
                        | (Inr assistant_row, cs3, w4) \<Rightarrow>
                            (Chat_Reply (conv_id conversation) (msg_content assistant_row)
                               (resp_tool_calls agent_response), cs3, w4)))))))"


section \<open>Notions used in the statements\<close>

text \<open>The completion flag the store holds for a task id.\<close>

definition completed_of :: "world \<Rightarrow> int \<Rightarrow> bool option" where
  "completed_of w tid = map_option completed (find (\<lambda>r. id_task r = tid) (tasks w))"

text \<open>A row after \<open>complete_task\<close> has toggled it at the time \<open>now\<close>.\<close>

definition toggled :: "timestamp \<Rightarrow> task \<Rightarrow> task" where
  "toggled now t = t\<lparr>completed := \<not> completed t, updated_at := now\<rparr>"

text \<open>
  A tool call the dispatch can hand to a tool: its arguments are a JSON object whose
  entries bind to the parameters of the tool and whose values are of the declared
  types. Any object is accepted under a name that is not a tool's.
\<close>

definition accepted :: "string \<Rightarrow> kwargs \<Rightarrow> bool" where
  "accepted name a =
     (if name = ''add_task'' then
        dom a \<subseteq> {''user_id'', ''title'', ''description''} \<and> ''title'' \<in> dom a
        \<and> opt_str (arg a ''title'' PyNone) \<noteq> None
        \<and> opt_str (arg a ''description'' PyNone) \<noteq> None
      else if name = ''list_tasks'' then
        dom a \<subseteq> {''user_id'', ''status'', ''limit''}
        \<and> opt_str (arg a ''status'' (PyStr ''all'')) \<noteq> None
        \<and> opt_int (arg a ''limit'' (PyInt 100)) \<noteq> None
      else if name = ''complete_task'' \<or> name = ''delete_task'' then
        dom a \<subseteq> {''user_id'', ''task_id''} \<and> ''task_id'' \<in> dom a
        \<and> opt_int (arg a ''task_id'' PyNone) \<noteq> None
      else if name = ''update_task'' then
        dom a \<subseteq> {''user_id'', ''task_id'', ''title'', ''description''} \<and> ''task_id'' \<in> dom a
        \<and> opt_int (arg a ''task_id'' PyNone) \<noteq> None
        \<and> opt_str (arg a ''title'' PyNone) \<noteq> None
        \<and> opt_str (arg a ''description'' PyNone) \<noteq> None
      else True)"

definition well_formed_call :: "tool_call \<Rightarrow> bool" where
  "well_formed_call tc =
     (case call_arguments tc of
        Wellformed (Dict a) \<Rightarrow> accepted (call_name tc) a
      | _ \<Rightarrow> False)"

text \<open>A provider that answers every call with at least one such tool call.\<close>

definition always_calls :: "provider \<Rightarrow> bool" where
  "always_calls client \<longleftrightarrow>
     (\<forall>ms. \<exists>am. client ms tools = Inr am \<and> am_tool_calls am \<noteq> []
                \<and> (\<forall>tc \<in> set (am_tool_calls am). well_formed_call tc))"

text \<open>
  The listing of an owner's tasks before the limit cuts it: the tasks of the owner that
  the status filter lets through, newest first.
\<close>

definition listing :: "string \<Rightarrow> string option \<Rightarrow> world \<Rightarrow> task_entry list" where
  "listing uid status w =
     map to_entry
       (sort_key (\<lambda>r. - created_at r)
          (filter (\<lambda>r. user_id r = uid
                     \<and> (status = Some ''pending'' \<longrightarrow> \<not> completed r)
                     \<and> (status = Some ''completed'' \<longrightarrow> completed r)) (tasks w)))"

text \<open>The random ids still to be drawn are not in use in the chat tables.\<close>

definition fresh_uuids :: "world \<Rightarrow> chat_store \<Rightarrow> bool" where
  "fresh_uuids w cs \<longleftrightarrow>
     (\<forall>n. uuids w n \<notin> conv_id ` set (conversation_rows cs)
        \<and> uuids w n \<notin> msg_id ` set (message_rows cs)
        \<and> uuids w n \<notin> msg_conversation_id ` set (message_rows cs))"

section \<open>Concrete inputs\<close>

text \<open>A store holding one task of the owner \<open>alice\<close>; \<open>alice\<close> and \<open>bob\<close> are its users.\<close>

definition example_world :: world where
  "example_world =
     \<lparr>tasks = [\<lparr>id_task = 1, user_id = ''alice'', title = ''Buy milk'', description = None,
                 completed = False, created_at = 10, updated_at = 10\<rparr>],
      next_id = 2, users = [''alice'', ''bob''], fault = None,
      clock = (\<lambda>n. 20 + int n), ticks = 0, uuids = (\<lambda>n. 100 + n), draws = 0\<rparr>"

text \<open>
  A store holding 1001 tasks of \<open>alice\<close>, all of them created at a time later than the
  next readings of the clock.
\<close>

definition crowded_world :: world where
  "crowded_world =
     \<lparr>tasks = map (\<lambda>i. \<lparr>id_task = int i, user_id = ''alice'', title = ''Errand'',
                         description = None, completed = False, created_at = 30,
                         updated_at = 30\<rparr>) [1..<1002],
      next_id = 1002, users = [''alice'', ''bob''], fault = None,
      clock = (\<lambda>n. 20 + int n), ticks = 0, uuids = (\<lambda>n. 100 + n), draws = 0\<rparr>"


text \<open>
  A conversation of \<open>alice\<close> holding one message, a chat request of hers that opens a
  conversation, and one that continues the stored conversation.
\<close>

definition example_chat :: chat_store where
  "example_chat =
     \<lparr>conversation_rows =
        [\<lparr>conv_id = 7, conv_user_id = ''alice'', conv_title = None,
          conv_created_at = 1, conv_updated_at = 1\<rparr>],
      message_rows =
        [\<lparr>msg_id = 8, msg_conversation_id = 7, msg_role = ''user'',
          msg_content = ''hello world'', msg_created_at = 2\<rparr>]\<rparr>"

definition example_request :: chat_request where
  "example_request = \<lparr>req_message = ''Add a task to buy eggs'', req_conversation_id = None\<rparr>"

definition followup_request :: chat_request where
  "followup_request = \<lparr>req_message = ''And one to buy bread'', req_conversation_id = Some 7\<rparr>"

text \<open>A dispatch in which a value of the wrong type always ends in a \<open>TypeError\<close>.\<close>

definition no_coercion :: untyped where
  "no_coercion name a w = Inl TypeError"

text \<open>
  Providers: one that always asks for the list of tasks, one whose tool call carries
  text that is not JSON, one that asks for a new task and gives no title, one that
  cannot be reached, and one that asks for a new task and cannot be reached afterwards.
\<close>

definition listing_stub :: provider where
  "listing_stub ms ts =
     Inr \<lparr>am_content = None,
          am_tool_calls = [\<lparr>call_id = ''call_1'', call_name = ''list_tasks'',
                            call_arguments = Wellformed (Dict Map.empty)\<rparr>]\<rparr>"

definition malformed_stub :: provider where
  "malformed_stub ms ts =
     Inr \<lparr>am_content = Some ''Working on it'',
          am_tool_calls = [\<lparr>call_id = ''call_1'', call_name = ''list_tasks'',
                            call_arguments = Malformed\<rparr>]\<rparr>"

definition missing_title_stub :: provider where
  "missing_title_stub ms ts =
     Inr \<lparr>am_content = None,
          am_tool_calls = [\<lparr>call_id = ''call_1'', call_name = ''add_task'',
                            call_arguments = Wellformed (Dict Map.empty)\<rparr>]\<rparr>"

definition unreachable :: provider where
  "unreachable ms ts = Inl APIError"

definition unreachable03 :: "unit provider03" where
  "unreachable03 ms ts = Inl APIError"

definition flaky_stub :: provider where
  "flaky_stub ms ts =
     (if length ms < 3 then
        Inr \<lparr>am_content = None,
             am_tool_calls = [\<lparr>call_id = ''call_1'', call_name = ''add_task'',
                               call_arguments =
                                 Wellformed (Dict [''title'' \<mapsto> PyStr ''Buy eggs''])\<rparr>]\<rparr>
      else Inl APIError)"

text \<open>Tool functions of phase-03 that always fail.\<close>

definition no_tools :: "unit tool_functions" where
  "no_tools name a w = (Inl ''not available'', w)"



section \<open>Lookup in a store with unique keys\<close>

lemma find_owned:
  assumes "distinct (map id_task rs)" and "t \<in> set rs" and "user_id t = uid"
  shows "find (\<lambda>r. Some (id_task r) = Some (id_task t) \<and> user_id r = uid) rs = Some t"
  using assms
proof (induction rs)
  case Nil
  then show ?case by simp
next
  case (Cons r rs)
  then show ?case by (auto simp: image_iff)
qed


lemma strip_alice: "strip ''alice'' = ''alice''"
  by (simp add: strip_def is_space_def)

lemma valid_alice: "validate_user_id (Some ''alice'') = None"
  by (simp add: validate_user_id_def strip_alice)
lemma find_by_id:
  assumes "distinct (map id_task rs)" and "t \<in> set rs"
  shows "find (\<lambda>r. id_task r = id_task t) rs = Some t"
  using assms by (induction rs) (auto simp: image_iff)


lemma carried_out_owner [simp]: "carried_out w [u] \<longleftrightarrow> fault w = None \<and> storable u"
  by (simp add: carried_out_def)

lemma storable_alice: "storable ''alice''"
  by (simp add: storable_def)


lemma storable_strip: "storable s \<Longrightarrow> storable (strip s)"
proof -
  have "set (strip s) \<subseteq> set s"
    unfolding strip_def by (metis set_dropWhileD set_rev subsetI)
  then show "storable s \<Longrightarrow> storable (strip s)" by (auto simp: storable_def)
qed

lemma example_world_fault: "fault example_world = None"
  by (simp add: example_world_def)
lemma wf_store_owner:
  assumes "wf_store w" and "t \<in> set (tasks w)"
  shows "storable (user_id t)"
  using assms by (auto simp: wf_store_def texts_of_def)
lemma valid_status_all: "validate_status (Some ''all'') = None"
  by (simp add: validate_status_def valid_statuses_def)
section \<open>The store invariant\<close>

text \<open>
  Every tool keeps the keys of the table unique and below the sequence, and the texts of
  the table free of the code point 0.
\<close>

lemma wf_store_add_task:
  assumes "wf_store w"
  shows "wf_store (snd (add_task uid ttl descr w))"
  using assms
  by (fastforce simp: add_task_def utcnow_def Let_def wf_store_def carried_out_def
        split: option.splits)
lemma wf_store_ticks [simp]: "wf_store (w\<lparr>ticks := n\<rparr>) = wf_store w"
  by (simp add: wf_store_def)
lemma wf_store_rewrite:
  assumes "wf_store w"
    and "\<And>r. r \<in> set (tasks w) \<Longrightarrow> id_task (f r) = id_task r"
    and "\<And>r. r \<in> set (tasks w) \<Longrightarrow> list_all storable (texts_of (f r))"
  shows "wf_store (w\<lparr>ticks := n, tasks := map f (tasks w)\<rparr>)"
proof -
  have m: "map (id_task \<circ> f) (tasks w) = map id_task (tasks w)"
    using assms(2) by simp
  show ?thesis using assms by (auto simp: wf_store_def m)
qed
lemma wf_store_complete_task:
  assumes "wf_store w"
  shows "wf_store (snd (complete_task uid tid w))"
proof -
  have "wf_store (w\<lparr>ticks := n, tasks := map (\<lambda>r. if id_task r = i
                     then r\<lparr>completed := c, updated_at := u\<rparr> else r) (tasks w)\<rparr>)" for n i c u
    using assms by (intro wf_store_rewrite) (auto simp: wf_store_def texts_of_def)
  then show ?thesis
    using assms
    by (auto simp: complete_task_def utcnow_def Let_def split: option.splits)
qed
lemma wf_store_update_task:
  assumes "wf_store w"
  shows "wf_store (snd (update_task uid tid ttl descr w))"
proof -
  have "wf_store (w\<lparr>ticks := n, tasks := map (\<lambda>r. if id_task r = i
                     then r\<lparr>title := a, description := d, updated_at := u\<rparr> else r) (tasks w)\<rparr>)"
    if "storable a" and "list_all storable (option_texts d)" for n i a d u
    using assms that by (intro wf_store_rewrite) (auto simp: wf_store_def texts_of_def)
  moreover have "storable (title t)" and "list_all storable (option_texts (description t))"
    if "find (\<lambda>r. Some (id_task r) = tid \<and> user_id r = uid) (tasks w) = Some t" for t
  proof -
    from that have "t \<in> set (tasks w)" by (auto simp: find_Some_iff)
    with assms show "storable (title t)" and "list_all storable (option_texts (description t))"
      by (auto simp: wf_store_def texts_of_def)
  qed
  ultimately show ?thesis
    using assms
    by (auto simp: update_task_def utcnow_def Let_def carried_out_def option_texts_def
             split: option.splits)
qed
lemma wf_store_delete_task:
  assumes "wf_store w"
  shows "wf_store (snd (delete_task uid tid w))"
  using assms
  by (auto simp: delete_task_def wf_store_def distinct_map_filter split: option.splits)
lemma list_tasks_reads: "snd (list_tasks uid status limit w) = w"
  by (simp add: list_tasks_def Let_def split: option.splits)
section \<open>Deleting\<close>

text \<open>
  C6. For a task owned by the caller, the first \<open>delete_task\<close> returns the status
  \<open>deleted\<close> with the task's id and title and removes the row from the store; a
  second \<open>delete_task\<close> on the same id returns the error object
  \<open>{"error": "task not found"}\<close>. The owner id is one the tool layer accepts and the
  persistence layer is reachable.
\<close>

theorem delete_task_twice:
  assumes "validate_user_id (Some uid) = None" and "fault w = None" and "wf_store w"
    and "t \<in> set (tasks w)" and "user_id t = uid"
  shows "fst (delete_task uid (Some (id_task t)) w)
           = Success (id_task t) ''deleted'' (title t)
       \<and> tasks (snd (delete_task uid (Some (id_task t)) w))
           = filter (\<lambda>r. id_task r \<noteq> id_task t) (tasks w)
       \<and> (\<forall>r \<in> set (tasks (snd (delete_task uid (Some (id_task t)) w))).
             id_task r \<noteq> id_task t)
       \<and> fst (delete_task uid (Some (id_task t))
                (snd (delete_task uid (Some (id_task t)) w)))
           = Error ''task not found''"
proof -
  have f: "find (\<lambda>r. Some (id_task r) = Some (id_task t) \<and> user_id r = uid) (tasks w)
             = Some t"
    using assms by (intro find_owned) (auto simp: wf_store_def)
  have s: "storable uid" using wf_store_owner [OF assms(3,4)] assms(5) by simp
  have d: "delete_task uid (Some (id_task t)) w
        = (Success (id_task t) ''deleted'' (title t),
           w\<lparr>tasks := filter (\<lambda>r. id_task r \<noteq> id_task t) (tasks w)\<rparr>)"
    using assms(1,2) f s
    by (simp add: delete_task_def validate_task_id_def success_response_def)
  have n: "find (\<lambda>r. Some (id_task r) = Some (id_task t) \<and> user_id r = uid)
             (filter (\<lambda>r. id_task r \<noteq> id_task t) (tasks w)) = None"
    by (auto simp: find_None_iff)
  have e: "fst (delete_task uid (Some (id_task t))
                 (w\<lparr>tasks := filter (\<lambda>r. id_task r \<noteq> id_task t) (tasks w)\<rparr>))
             = Error ''task not found''"
    using assms(1,2) n s
    by (simp add: delete_task_def validate_task_id_def error_response_def)
  show ?thesis using d e by simp
qed

theorem delete_task_twice_witness:
  "validate_user_id (Some ''alice'') = None \<and> wf_store example_world
   \<and> fst (delete_task ''alice'' (Some 1) example_world) = Success 1 ''deleted'' ''Buy milk''
   \<and> tasks (snd (delete_task ''alice'' (Some 1) example_world)) = []
   \<and> fst (delete_task ''alice'' (Some 1) (snd (delete_task ''alice'' (Some 1) example_world)))
       = Error ''task not found''"
  using delete_task_twice [of "''alice''" example_world "hd (tasks example_world)"]
  by (simp add: valid_alice example_world_def wf_store_def texts_of_def option_texts_def
        storable_def)
section \<open>Toggling completion\<close>

lemma complete_task_owned:
  assumes "validate_user_id (Some uid) = None" and "fault w = None" and "wf_store w"
    and "t \<in> set (tasks w)" and "user_id t = uid"
  shows "complete_task uid (Some (id_task t)) w
       = (Success (id_task t) (if completed t then ''incomplete'' else ''completed'') (title t),
          w\<lparr>ticks := Suc (ticks w),
            tasks := map (\<lambda>r. if id_task r = id_task t
                              then r\<lparr>completed := \<not> completed t,
                                     updated_at := clock w (ticks w)\<rparr>
                              else r) (tasks w)\<rparr>)"
proof -
  have f: "find (\<lambda>r. Some (id_task r) = Some (id_task t) \<and> user_id r = uid) (tasks w)
             = Some t"
    using assms by (intro find_owned) (auto simp: wf_store_def)
  have s: "storable uid" using wf_store_owner [OF assms(3,4)] assms(5) by simp
  show ?thesis
    using assms(1,2) f s
    by (simp add: complete_task_def validate_task_id_def success_response_def utcnow_def
          Let_def)
qed
lemma toggle_rows:
  assumes "distinct (map id_task rs)" and "t \<in> set rs"
  shows "map (\<lambda>r. if id_task r = id_task t
                   then r\<lparr>completed := \<not> completed t, updated_at := now\<rparr> else r) rs
       = map (\<lambda>r. if r = t then toggled now t else r) rs"
  using assms by (auto simp: toggled_def distinct_map inj_on_def)
lemma complete_task_invariant:
  assumes "validate_user_id (Some uid) = None" and "fault w = None" and "wf_store w"
    and "t \<in> set (tasks w)" and "user_id t = uid"
  defines "w' \<equiv> snd (complete_task uid (Some (id_task t)) w)"
  defines "t' \<equiv> toggled (clock w (ticks w)) t"
  shows "fault w' = None" and "wf_store w'" and "t' \<in> set (tasks w')"
    and "user_id t' = uid" and "id_task t' = id_task t" and "completed t' = (\<not> completed t)"
proof -
  have d: "distinct (map id_task (tasks w))" using assms(3) by (simp add: wf_store_def)
  have w': "w' = w\<lparr>ticks := Suc (ticks w),
            tasks := map (\<lambda>r. if r = t then t' else r) (tasks w)\<rparr>"
    unfolding w'_def t'_def
    using complete_task_owned [OF assms(1-5)] toggle_rows [OF d assms(4)] by simp
  show "fault w' = None" using assms(2) by (simp add: w')
  have ids: "map (id_task \<circ> (\<lambda>r. if r = t then t' else r)) (tasks w) = map id_task (tasks w)"
    by (auto simp: t'_def toggled_def)
  have d': "distinct (map id_task (tasks w'))"
    using d by (simp add: w' ids)
  have "\<forall>r \<in> set (tasks w'). id_task r < next_id w' \<and> list_all storable (texts_of r)"
    using assms(3,4) by (auto simp: w' wf_store_def t'_def toggled_def texts_of_def)
  with d' show "wf_store w'" by (simp add: wf_store_def)
  show "t' \<in> set (tasks w')" using assms(4) by (auto simp: w')
  show "user_id t' = uid" using assms(5) by (simp add: t'_def toggled_def)
  show "id_task t' = id_task t" by (simp add: t'_def toggled_def)
  show "completed t' = (\<not> completed t)" by (simp add: t'_def toggled_def)
qed
lemma completed_of_member:
  assumes "wf_store w" and "t \<in> set (tasks w)"
  shows "completed_of w (id_task t) = Some (completed t)"
  using assms find_by_id [of "tasks w" t] by (simp add: completed_of_def wf_store_def)
lemma complete_task_even:
  assumes "validate_user_id (Some uid) = None" and "fault w = None" and "wf_store w"
    and "t \<in> set (tasks w)" and "user_id t = uid"
  shows "completed_of (((\<lambda>v. snd (complete_task uid (Some (id_task t)) v)) ^^ (2 * n)) w)
           (id_task t) = Some (completed t)"
  using assms
proof (induction n arbitrary: w t)
  case 0
  then show ?case by (simp add: completed_of_member)
next
  case (Suc n)
  let ?f = "\<lambda>v. snd (complete_task uid (Some (id_task t)) v)"
  define t1 where "t1 = toggled (clock w (ticks w)) t"
  define w1 where "w1 = ?f w"
  define t2 where "t2 = toggled (clock w1 (ticks w1)) t1"
  define w2 where "w2 = ?f w1"
  note i1 = complete_task_invariant [OF Suc.prems, folded w1_def t1_def]
  have w2': "w2 = snd (complete_task uid (Some (id_task t1)) w1)"
    by (simp add: w2_def i1(5))
  note i2 = complete_task_invariant [OF Suc.prems(1) i1(1-4), folded w2' t2_def]
  have "completed_of (((\<lambda>v. snd (complete_task uid (Some (id_task t2)) v)) ^^ (2 * n)) w2)
          (id_task t2) = Some (completed t2)"
    by (rule Suc.IH [OF Suc.prems(1) i2(1-4)])
  moreover have "id_task t2 = id_task t" using i1(5) i2(5) by simp
  moreover have "completed t2 = completed t" using i1(6) i2(6) by simp
  moreover have "(?f ^^ (2 * Suc n)) w = (?f ^^ (2 * n)) w2"
  proof -
    have "?f ^^ (2 * Suc n) = ?f ^^ (2 * n) \<circ> ?f ^^ 2"
      by (simp only: funpow_add [symmetric]) simp
    then show ?thesis by (simp add: w2_def w1_def numeral_2_eq_2)
  qed
  ultimately show ?case by simp
qed
text \<open>
  C5. For a task owned by the caller, \<open>complete_task\<close> flips the \<open>completed\<close> field
  and returns the status \<open>completed\<close> or \<open>incomplete\<close> that matches the new value;
  two calls in a row bring the field back to its value, and so does every even number
  of calls. The owner id is one the tool layer accepts and the persistence layer is
  reachable.
\<close>

theorem complete_task_toggles:
  assumes "validate_user_id (Some uid) = None" and "fault w = None" and "wf_store w"
    and "t \<in> set (tasks w)" and "user_id t = uid"
  shows "fst (complete_task uid (Some (id_task t)) w)
           = Success (id_task t) (if \<not> completed t then ''completed'' else ''incomplete'')
               (title t)
       \<and> completed_of (snd (complete_task uid (Some (id_task t)) w)) (id_task t)
           = Some (\<not> completed t)
       \<and> completed_of (snd (complete_task uid (Some (id_task t))
                              (snd (complete_task uid (Some (id_task t)) w)))) (id_task t)
           = Some (completed t)
       \<and> (\<forall>n. completed_of
                 (((\<lambda>v. snd (complete_task uid (Some (id_task t)) v)) ^^ (2 * n)) w)
                 (id_task t) = Some (completed t))"
proof -
  note inv = complete_task_invariant [OF assms]
  have a: "fst (complete_task uid (Some (id_task t)) w)
           = Success (id_task t) (if \<not> completed t then ''completed'' else ''incomplete'')
               (title t)"
    by (simp add: complete_task_owned [OF assms])
  have b: "completed_of (snd (complete_task uid (Some (id_task t)) w)) (id_task t)
           = Some (\<not> completed t)"
    using completed_of_member [OF inv(2,3)] inv(5,6) by simp
  have c: "completed_of (((\<lambda>v. snd (complete_task uid (Some (id_task t)) v)) ^^ (2 * n)) w)
                 (id_task t) = Some (completed t)" for n
    by (rule complete_task_even [OF assms])
  from c [of 1] have d: "completed_of (snd (complete_task uid (Some (id_task t))
                              (snd (complete_task uid (Some (id_task t)) w)))) (id_task t)
           = Some (completed t)"
    by (simp add: numeral_2_eq_2)
  show ?thesis using a b c d by blast
qed
theorem complete_task_toggles_witness:
  "validate_user_id (Some ''alice'') = None \<and> wf_store example_world
   \<and> fst (complete_task ''alice'' (Some 1) example_world) = Success 1 ''completed'' ''Buy milk''
   \<and> completed_of (snd (complete_task ''alice'' (Some 1) example_world)) 1 = Some True
   \<and> completed_of (snd (complete_task ''alice'' (Some 1)
                          (snd (complete_task ''alice'' (Some 1) example_world)))) 1
       = Some False"
  using complete_task_toggles [of "''alice''" example_world "hd (tasks example_world)"]
  by (simp add: valid_alice example_world_def wf_store_def texts_of_def option_texts_def
        storable_def)
section \<open>Adding, then listing\<close>

lemma crowded_rows:
  "filter (\<lambda>r. user_id r = ''alice'') (tasks crowded_world) = tasks crowded_world"
  "length (tasks crowded_world) = 1001"
  "sorted (map (\<lambda>r. - created_at r) (tasks crowded_world))"
  "\<forall>r \<in> set (tasks crowded_world). created_at r = 30"
  by (simp_all add: crowded_world_def filter_map o_def sorted_map)
section \<open>The limit of a listing\<close>

lemma list_tasks_listing:
  assumes "validate_user_id (Some uid) = None" and "validate_status status = None"
    and "fault w = None" and "storable uid" and "1 \<le> l"
  shows "list_tasks uid status (Some l) w
       = (Task_Array (take (nat (if 1000 < l then 1000 else l)) (listing uid status w)), w)"
proof -
  have "filter (\<lambda>r. user_id r = uid \<and> (status = Some ''pending'' \<longrightarrow> \<not> completed r)
                    \<and> (status = Some ''completed'' \<longrightarrow> completed r)) (tasks w)
      = (if status = Some ''pending''
           then filter (\<lambda>r. \<not> completed r) (filter (\<lambda>r. user_id r = uid) (tasks w))
         else if status = Some ''completed''
           then filter (\<lambda>r. completed r) (filter (\<lambda>r. user_id r = uid) (tasks w))
         else filter (\<lambda>r. user_id r = uid) (tasks w))"
    by (auto intro: filter_cong)
  then show ?thesis
    using assms
    by (simp add: list_tasks_def listing_def Let_def take_map)
qed
lemma crowded_listing: "length (listing ''alice'' (Some ''all'') crowded_world) = 1001"
  by (simp add: listing_def crowded_rows(1,2))
lemma crowded_world_fault: "fault crowded_world = None"
  by (simp add: crowded_world_def)
text \<open>
  C10. For an owner id the tool layer accepts, a valid status and a store that carries
  out the query, \<open>list_tasks\<close> returns the first 100 entries of the owner's listing
  when no limit is given, the first \<open>l\<close> entries for a limit \<open>l\<close> from 1 to 1000, and
  the first 1000 entries, with no error, for a limit above 1000; a limit below 1 is
  answered with the error object \<open>{"error": "limit must be at least 1"}\<close>. A status
  outside the three valid ones is answered with an error object.
\<close>

theorem list_tasks_limit:
  "list_tasks uid status None w = list_tasks uid status (Some 100) w
   \<and> (1000 < l \<longrightarrow> list_tasks uid status (Some l) w = list_tasks uid status (Some 1000) w)
   \<and> (validate_user_id (Some uid) = None \<and> validate_status status = None \<and> l < 1
        \<longrightarrow> list_tasks uid status (Some l) w = (Error ''limit must be at least 1'', w))
   \<and> (validate_user_id (Some uid) = None \<and> validate_status status = None \<and> fault w = None
        \<and> storable uid
        \<longrightarrow> list_tasks uid status None w = (Task_Array (take 100 (listing uid status w)), w)
          \<and> (1 \<le> l \<and> l \<le> 1000
                \<longrightarrow> list_tasks uid status (Some l) w
                      = (Task_Array (take (nat l) (listing uid status w)), w))
          \<and> (1000 < l
                \<longrightarrow> list_tasks uid status (Some l) w
                      = (Task_Array (take 1000 (listing uid status w)), w)))
   \<and> (validate_user_id (Some uid) = None \<and> s \<notin> set valid_statuses
        \<longrightarrow> list_tasks uid (Some s) limit w
            = (Error (''status must be 'all', 'pending', or 'completed'' @ [CHR 0x27]), w))"
proof (intro conjI impI)
  show n: "list_tasks uid status None w = list_tasks uid status (Some 100) w"
    by (simp add: list_tasks_def split: option.splits)
  show "list_tasks uid status (Some l) w = list_tasks uid status (Some 1000) w" if "1000 < l"
    using that by (simp add: list_tasks_def Let_def split: option.splits)
  show "list_tasks uid status (Some l) w = (Error ''limit must be at least 1'', w)"
    if "validate_user_id (Some uid) = None \<and> validate_status status = None \<and> l < 1"
    using that by (simp add: list_tasks_def error_response_def)
  assume a: "validate_user_id (Some uid) = None \<and> validate_status status = None
             \<and> fault w = None \<and> storable uid"
  then have v: "validate_user_id (Some uid) = None" and t: "validate_status status = None"
    and f: "fault w = None" and u: "storable uid"
    by simp_all
  show "list_tasks uid status None w = (Task_Array (take 100 (listing uid status w)), w)"
    using list_tasks_listing [OF v t f u, of 100] by (simp add: n)
  show "list_tasks uid status (Some l) w = (Task_Array (take (nat l) (listing uid status w)), w)"
    if "1 \<le> l \<and> l \<le> 1000"
    using list_tasks_listing [OF v t f u, of l] that by simp
  show "list_tasks uid status (Some l) w = (Task_Array (take 1000 (listing uid status w)), w)"
    if "1000 < l"
    using list_tasks_listing [OF v t f u, of l] that by simp
next
  show "list_tasks uid (Some s) limit w
            = (Error (''status must be 'all', 'pending', or 'completed'' @ [CHR 0x27]), w)"
    if "validate_user_id (Some uid) = None \<and> s \<notin> set valid_statuses"
    using that by (simp add: list_tasks_def validate_status_def error_response_def)
qed
theorem list_tasks_limit_witness:
  "validate_user_id (Some ''alice'') = None \<and> validate_status (Some ''all'') = None
   \<and> fault crowded_world = None \<and> storable ''alice''
   \<and> length (listing ''alice'' (Some ''all'') crowded_world) = 1001
   \<and> list_tasks ''alice'' (Some ''all'') (Some 0) crowded_world
       = (Error ''limit must be at least 1'', crowded_world)
   \<and> (\<exists>es. list_tasks ''alice'' (Some ''all'') None crowded_world
              = (Task_Array es, crowded_world) \<and> length es = 100)
   \<and> (\<exists>es. list_tasks ''alice'' (Some ''all'') (Some 7) crowded_world
              = (Task_Array es, crowded_world) \<and> length es = 7)
   \<and> (\<exists>es. list_tasks ''alice'' (Some ''all'') (Some 5000) crowded_world
              = (Task_Array es, crowded_world) \<and> length es = 1000)
   \<and> list_tasks ''alice'' (Some ''done'') (Some 5000) crowded_world
       = (Error (''status must be 'all', 'pending', or 'completed'' @ [CHR 0x27]),
          crowded_world)"
proof -
  have h: "validate_user_id (Some ''alice'') = None \<and> validate_status (Some ''all'') = None"
    by (simp add: valid_alice valid_status_all)
  have g: "validate_user_id (Some ''alice'') = None \<and> validate_status (Some ''all'') = None
           \<and> fault crowded_world = None \<and> storable ''alice''"
    by (simp add: valid_alice valid_status_all crowded_world_fault storable_alice)
  have d: "''done'' \<notin> set valid_statuses" by (simp add: valid_statuses_def)
  note lo = list_tasks_limit [of "''alice''" "Some ''all''" crowded_world 0 "''done''" "Some 5000"]
  note mid = list_tasks_limit [of "''alice''" "Some ''all''" crowded_world 7 "''done''" "Some 5000"]
  note hi = list_tasks_limit [of "''alice''" "Some ''all''" crowded_world 5000 "''done''" "Some 5000"]
  have c1: "list_tasks ''alice'' (Some ''all'') (Some 0) crowded_world
       = (Error ''limit must be at least 1'', crowded_world)"
    using lo h by simp
  have c2: "list_tasks ''alice'' (Some ''all'') None crowded_world
       = (Task_Array (take 100 (listing ''alice'' (Some ''all'') crowded_world)), crowded_world)"
    using lo g by blast
  have c3: "list_tasks ''alice'' (Some ''all'') (Some 7) crowded_world
       = (Task_Array (take (nat 7) (listing ''alice'' (Some ''all'') crowded_world)),
          crowded_world)"
  proof -
    have "(1::int) \<le> 7 \<and> (7::int) \<le> 1000" by simp
    with mid g show ?thesis by blast
  qed
  have c4: "list_tasks ''alice'' (Some ''all'') (Some 5000) crowded_world
       = (Task_Array (take 1000 (listing ''alice'' (Some ''all'') crowded_world)),
          crowded_world)"
  proof -
    have "(1000::int) < 5000" by simp
    with hi g show ?thesis by blast
  qed
  have c5: "list_tasks ''alice'' (Some ''done'') (Some 5000) crowded_world
       = (Error (''status must be 'all', 'pending', or 'completed'' @ [CHR 0x27]),
          crowded_world)"
    using hi h d by simp
  show ?thesis
    using g c1 c5 by (simp add: c2 c3 c4 crowded_listing)
qed
section \<open>Isolation between owners\<close>

section \<open>The tool schema\<close>

text \<open>
  C9. The \<open>update_task\<close> entry of the schema array handed to the provider lists
  \<open>task_id\<close> and \<open>title\<close> as required, not \<open>task_id\<close> alone, while the tool updates
  a description without a title and the schema of phase-03 requires \<open>task_id\<close> only.
\<close>

theorem update_task_schema_required:
  "required_of tools ''update_task'' = Some [''task_id'', ''title'']
   \<and> required_of tools ''update_task'' \<noteq> Some [''task_id'']
   \<and> map_of get_tool_definitions ''update_task'' = Some [''task_id'']
   \<and> fst (update_task ''alice'' (Some 1) None (Some ''2 litres'') example_world)
       = Success 1 ''updated'' ''Buy milk''"
  by (simp add: required_of_def tools_def get_tool_definitions_def update_task_def valid_alice
        validate_task_id_def example_world_def success_response_def utcnow_def Let_def
        carried_out_def option_texts_def storable_def)

section \<open>Dispatch\<close>

lemma arg_inject [simp]:
  "k \<noteq> ''user_id'' \<Longrightarrow> arg (a(''user_id'' \<mapsto> v)) k d = arg a k d"
  by (simp add: arg_def)
lemma invoke_tool_accepted:
  assumes "accepted name a"
  shows "\<exists>r w'. invoke_tool dyn name uid (Dict a) w = Inr (r, w')"
proof -
  consider "name = ''add_task''" | "name = ''list_tasks''" | "name = ''complete_task''"
    | "name = ''delete_task''" | "name = ''update_task''"
    | "name \<notin> {''add_task'', ''list_tasks'', ''complete_task'', ''delete_task'', ''update_task''}"
    by auto
  then show ?thesis
  proof cases
    case 1
    with assms show ?thesis
      by (auto simp: invoke_tool_def accepted_def call_add_task_def prod_eq_iff)
  next
    case 2
    with assms show ?thesis
      by (auto simp: invoke_tool_def accepted_def call_list_tasks_def prod_eq_iff)
  next
    case 3
    with assms show ?thesis
      by (auto simp: invoke_tool_def accepted_def call_complete_task_def prod_eq_iff)
  next
    case 4
    with assms show ?thesis
      by (auto simp: invoke_tool_def accepted_def call_delete_task_def prod_eq_iff)
  next
    case 5
    with assms show ?thesis
      by (auto simp: invoke_tool_def accepted_def call_update_task_def prod_eq_iff)
  next
    case 6
    then show ?thesis by (simp add: invoke_tool_def)
  qed
qed
lemma execute_tool_calls_well_formed:
  assumes "\<forall>tc \<in> set tcs. well_formed_call tc"
  shows "\<exists>ms' w'. execute_tool_calls dyn uid tcs ms w = (Inr ms', w')"
  using assms
proof (induction tcs arbitrary: ms w)
  case Nil
  then show ?case by simp
next
  case (Cons tc tcs)
  from Cons.prems obtain a where a: "call_arguments tc = Wellformed (Dict a)"
      and acc: "accepted (call_name tc) a"
    by (auto simp: well_formed_call_def split: json_text.splits json_value.splits)
  from invoke_tool_accepted [OF acc] obtain r w1
    where r: "invoke_tool dyn (call_name tc) uid (Dict a) w = Inr (r, w1)" by blast
  from Cons.IH [of "ms @ [Tool_Message (call_id tc) r]" w1] Cons.prems
  show ?case by (simp add: a json_loads_def r)
qed
lemma persistence_failure_opaque:
  assumes "fault w = Some detail" and "validate_user_id (Some uid) = None"
  shows "fst (add_task uid (Some ttl) descr w) \<in> {Error ''service unavailable'',
            Error ''title cannot be empty'',
            Error ''title exceeds maximum length of 500 characters''}"
    and "fst (complete_task uid (Some tid) w) = Error ''service unavailable''"
    and "fst (delete_task uid (Some tid) w) = Error ''service unavailable''"
    and "validate_status status = None \<Longrightarrow> 1 \<le> l \<Longrightarrow>
           fst (list_tasks uid status (Some l) w) = Error ''service unavailable''"
  using assms
  by (auto simp: add_task_def complete_task_def delete_task_def list_tasks_def
        validate_title_def validate_task_id_def error_response_def utcnow_def Let_def
        carried_out_def
        split: prod.splits)
text \<open>
  C8. A tool call \<open>add_task\<close> whose argument object is empty leaves \<open>_invoke_tool\<close>
  with a \<open>TypeError\<close>, and so does every tool call whose arguments are not an object:
  no result object is returned, and \<open>generate_response\<close> raises that exception at
  the first round.
\<close>

theorem invoke_tool_raises:
  "invoke_tool dyn ''add_task'' uid (Dict Map.empty) w = Inl TypeError
   \<and> invoke_tool dyn name uid Non_Dict w = Inl TypeError
   \<and> generate_response missing_title_stub dyn sp hist uid w = (Inl TypeError, 1, w)"
  by (simp add: invoke_tool_def call_add_task_def generate_response_def agentic_loop.simps
        missing_title_stub_def json_loads_def max_iterations_def)
section \<open>The agentic loop\<close>

lemma agentic_loop_bound:
  "iteration \<le> max_iterations \<Longrightarrow>
   fst (snd (agentic_loop client dyn uid iteration ms prev w)) \<le> max_iterations"
proof (induction client dyn uid iteration ms prev w rule: agentic_loop.induct)
  case (1 client dyn uid iteration messages previous w)
  show ?case
  proof (cases "iteration < max_iterations")
    case False
    with "1.prems" show ?thesis by (subst agentic_loop.simps) simp
  next
    case True
    show ?thesis
    proof (cases "client messages tools")
      case (Inl e)
      with True show ?thesis by (subst agentic_loop.simps) simp
    next
      case (Inr am)
      show ?thesis
      proof (cases "am_tool_calls am \<noteq> []")
        case False
        with True Inr show ?thesis by (subst agentic_loop.simps) simp
      next
        case calls: True
        obtain r w1 where ex: "execute_tool_calls dyn uid (am_tool_calls am)
                      (messages @ [Assistant_Calls (am_content am) (am_tool_calls am)]) w = (r, w1)"
          by (cases "execute_tool_calls dyn uid (am_tool_calls am)
                      (messages @ [Assistant_Calls (am_content am) (am_tool_calls am)]) w") 
        show ?thesis
        proof (cases r)
          case (Inl e)
          with True Inr calls ex show ?thesis by (subst agentic_loop.simps) simp
        next
          case r: (Inr ms')
          have "fst (snd (agentic_loop client dyn uid (iteration + 1) ms' (Some am) w1))
                  \<le> max_iterations"
            using "1.IH" [OF True Inr calls ex [symmetric, unfolded r] refl] True by simp
          with True Inr calls ex r show ?thesis by (subst agentic_loop.simps) simp
        qed
      qed
    qed
  qed
qed
lemma agentic_loop_exhausts:
  assumes "always_calls client" and "iteration < max_iterations"
  shows "\<exists>ms am w'. client ms tools = Inr am
           \<and> agentic_loop client dyn uid iteration msgs prev w
               = (Exited (Some am) None, max_iterations, w')"
  using assms(2)
proof (induction "max_iterations - iteration" arbitrary: iteration msgs prev w)
  case 0
  then show ?case by simp
next
  case (Suc k)
  from assms(1) obtain am where am: "client msgs tools = Inr am" "am_tool_calls am \<noteq> []"
      "\<forall>tc \<in> set (am_tool_calls am). well_formed_call tc"
    unfolding always_calls_def by blast
  from execute_tool_calls_well_formed [OF am(3)] obtain ms' w1
    where ex: "execute_tool_calls dyn uid (am_tool_calls am)
                 (msgs @ [Assistant_Calls (am_content am) (am_tool_calls am)]) w = (Inr ms', w1)"
    by blast
  have step: "agentic_loop client dyn uid iteration msgs prev w
            = agentic_loop client dyn uid (iteration + 1) ms' (Some am) w1"
    using Suc.prems am ex by (subst agentic_loop.simps) simp
  show ?case
  proof (cases "iteration + 1 < max_iterations")
    case True
    moreover have "k = max_iterations - (iteration + 1)" using Suc.hyps(2) by simp
    ultimately show ?thesis using Suc.hyps(1) step by simp
  next
    case False
    with Suc.prems have "iteration + 1 = max_iterations" by simp
    then have "agentic_loop client dyn uid (iteration + 1) ms' (Some am) w1
             = (Exited (Some am) None, max_iterations, w1)"
      by (subst agentic_loop.simps) simp
    with step am(1) show ?thesis
      by (intro exI [of _ msgs] exI [of _ am] exI [of _ w1]) simp
  qed
qed
lemma generate_response_bound:
  "fst (snd (generate_response client dyn sp hist uid w)) \<le> max_iterations"
proof -
  obtain x n w' where l: "agentic_loop client dyn uid 0
       (Chat_Message ''system'' sp # hist) None w = (x, n, w')"
    by (metis prod_cases3)
  have "n \<le> max_iterations"
    using agentic_loop_bound [of 0 client dyn uid "Chat_Message ''system'' sp # hist" None w] l
    by simp
  then show ?thesis
    by (simp add: generate_response_def l split: loop_exit.splits option.splits)
qed
lemma always_calls_listing_stub: "always_calls listing_stub"
  by (simp add: always_calls_def listing_stub_def well_formed_call_def accepted_def arg_def)
text \<open>
  C2, as amended. \<open>generate_response\<close> never calls the provider more than 5 times.
  If the provider answers every call with at least one tool call, and every tool call
  carries a JSON object that binds to the parameters of its tool with values of the
  declared types, then \<open>generate_response\<close> returns after exactly 5 calls with a text
  that is not empty: the content of the last assistant message if that is not empty,
  and the completion message otherwise.
\<close>

theorem generate_response_terminates:
  "fst (snd (generate_response client dyn sp hist uid w)) \<le> 5
   \<and> (always_calls client \<longrightarrow>
        (\<exists>ms am reply w'.
            client ms tools = Inr am
          \<and> agentic_loop client dyn uid 0 (Chat_Message ''system'' sp # hist) None w
                = (Exited (Some am) None, 5, w')
          \<and> generate_response client dyn sp hist uid w = (Inr (Some reply), 5, w')
          \<and> reply \<noteq> []
          \<and> reply = (case am_content am of
                       None \<Rightarrow> completion_message
                     | Some s \<Rightarrow> if s \<noteq> [] then s else completion_message)))"
proof (intro conjI impI)
  show "fst (snd (generate_response client dyn sp hist uid w)) \<le> 5"
    using generate_response_bound [of client dyn sp hist uid w]
    by (simp add: max_iterations_def)
next
  assume a: "always_calls client"
  have "0 < max_iterations" by (simp add: max_iterations_def)
  from agentic_loop_exhausts [OF a this, of dyn uid "Chat_Message ''system'' sp # hist" None w]
  obtain ms am w' where am: "client ms tools = Inr am"
    and l: "agentic_loop client dyn uid 0 (Chat_Message ''system'' sp # hist) None w
              = (Exited (Some am) None, max_iterations, w')"
    by blast
  define reply where "reply = (case am_content am of
                       None \<Rightarrow> completion_message
                     | Some s \<Rightarrow> if s \<noteq> [] then s else completion_message)"
  have ne: "reply \<noteq> []"
    by (simp add: reply_def completion_message_def split: option.splits)
  have "generate_response client dyn sp hist uid w = (Inr (Some reply), 5, w')"
    by (simp add: generate_response_def l truthy_def reply_def max_iterations_def
             split: option.splits)
  moreover have "agentic_loop client dyn uid 0 (Chat_Message ''system'' sp # hist) None w
                = (Exited (Some am) None, 5, w')"
    using l by (simp add: max_iterations_def)
  ultimately show "\<exists>ms am reply w'.
            client ms tools = Inr am
          \<and> agentic_loop client dyn uid 0 (Chat_Message ''system'' sp # hist) None w
                = (Exited (Some am) None, 5, w')
          \<and> generate_response client dyn sp hist uid w = (Inr (Some reply), 5, w')
          \<and> reply \<noteq> []
          \<and> reply = (case am_content am of
                       None \<Rightarrow> completion_message
                     | Some s \<Rightarrow> if s \<noteq> [] then s else completion_message)"
    using am ne reply_def by blast
qed
theorem generate_response_terminates_witness:
  "always_calls listing_stub
   \<and> fst (generate_response listing_stub no_coercion [] [] ''alice'' example_world)
       = Inr (Some ''I've completed the requested actions.'')
   \<and> fst (snd (generate_response listing_stub no_coercion [] [] ''alice'' example_world)) = 5"
  using generate_response_terminates
          [of listing_stub no_coercion "[]" "[]" "''alice''" example_world]
        always_calls_listing_stub
  by (auto simp: listing_stub_def completion_message_def)
text \<open>
  C2 as stated fails: a provider that always asks for a tool call, with arguments that
  are not JSON, makes \<open>generate_response\<close> raise at the first round.
\<close>

theorem generate_response_malformed_counterexample:
  "am_tool_calls (projr (malformed_stub [] tools)) \<noteq> []
   \<and> generate_response malformed_stub no_coercion [] [] ''alice'' example_world
       = (Inl JSONDecodeError, 1, example_world)"
  by (simp add: generate_response_def agentic_loop.simps malformed_stub_def json_loads_def
        max_iterations_def)
section \<open>Bounded history\<close>

lemma history_loop_prefix:
  "\<exists>k \<le> length xs.
      history_loop enc mx xs acc tot
        = rev (map (\<lambda>m. (msg_role m, msg_content m)) (take k xs)) @ acc
    \<and> (tot \<le> mx \<longrightarrow> tot + (\<Sum>m\<leftarrow>take k xs. int (enc (msg_content m))) \<le> mx)
    \<and> (k < length xs \<longrightarrow> mx < tot + (\<Sum>m\<leftarrow>take (Suc k) xs. int (enc (msg_content m))))
    \<and> (xs \<noteq> [] \<and> mx < tot + int (enc (msg_content (hd xs))) \<longrightarrow> k = 0)"
proof (induction xs arbitrary: acc tot)
  case Nil
  then show ?case by simp
next
  case (Cons m ms)
  show ?case
  proof (cases "tot + int (enc (msg_content m)) > mx")
    case True
    then show ?thesis by (intro exI [of _ 0]) simp
  next
    case False
    from Cons.IH [of "(msg_role m, msg_content m) # acc" "tot + int (enc (msg_content m))"]
    obtain k where k: "k \<le> length ms"
      "history_loop enc mx ms ((msg_role m, msg_content m) # acc) (tot + int (enc (msg_content m)))
        = rev (map (\<lambda>m. (msg_role m, msg_content m)) (take k ms)) @ (msg_role m, msg_content m) # acc"
      "tot + int (enc (msg_content m)) \<le> mx \<longrightarrow>
         tot + int (enc (msg_content m)) + (\<Sum>m\<leftarrow>take k ms. int (enc (msg_content m))) \<le> mx"
      "k < length ms \<longrightarrow>
         mx < tot + int (enc (msg_content m)) + (\<Sum>m\<leftarrow>take (Suc k) ms. int (enc (msg_content m)))"
      by blast
    show ?thesis
      using False k by (intro exI [of _ "Suc k"]) (simp add: Let_def add.assoc)
  qed
qed
lemma newest_first_example:
  "newest_first 7 example_chat
     = [\<lparr>msg_id = 8, msg_conversation_id = 7, msg_role = ''user'',
         msg_content = ''hello world'', msg_created_at = 2\<rparr>]"
  by (simp add: newest_first_def example_chat_def)
text \<open>
  C4, as amended. For a budget that is not negative, \<open>load_conversation_history\<close>
  returns, oldest first, whole messages: the longest run of the newest messages of the
  conversation whose token counts add up to at most the budget. There is no exception
  for the newest message: when it alone exceeds the budget the history is empty.
\<close>

theorem load_conversation_history_bounded:
  assumes "fault w = None" and "0 \<le> max_tokens"
  shows "\<exists>k \<le> length (newest_first cid cs).
           load_conversation_history enc cid max_tokens cs w
             = Inr (rev (map (\<lambda>m. (msg_role m, msg_content m)) (take k (newest_first cid cs))))
         \<and> (\<Sum>m\<leftarrow>take k (newest_first cid cs). int (enc (msg_content m))) \<le> max_tokens
         \<and> (k < length (newest_first cid cs) \<longrightarrow>
              max_tokens < (\<Sum>m\<leftarrow>take (Suc k) (newest_first cid cs). int (enc (msg_content m))))
         \<and> (newest_first cid cs \<noteq> []
              \<and> max_tokens < int (enc (msg_content (hd (newest_first cid cs))))
              \<longrightarrow> load_conversation_history enc cid max_tokens cs w = Inr [])
         \<and> sorted (map (\<lambda>m. - msg_created_at m) (newest_first cid cs))
         \<and> set (newest_first cid cs)
             = {m \<in> set (message_rows cs). msg_conversation_id m = cid}"
proof -
  from history_loop_prefix [of "newest_first cid cs" enc max_tokens "[]" 0]
  obtain k where k: "k \<le> length (newest_first cid cs)"
    "history_loop enc max_tokens (newest_first cid cs) [] 0
        = rev (map (\<lambda>m. (msg_role m, msg_content m)) (take k (newest_first cid cs)))"
    "(\<Sum>m\<leftarrow>take k (newest_first cid cs). int (enc (msg_content m))) \<le> max_tokens"
    "k < length (newest_first cid cs) \<longrightarrow>
       max_tokens < (\<Sum>m\<leftarrow>take (Suc k) (newest_first cid cs). int (enc (msg_content m)))"
    "newest_first cid cs \<noteq> [] \<and> max_tokens < int (enc (msg_content (hd (newest_first cid cs))))
       \<longrightarrow> k = 0"
    using assms(2) by auto
  have l: "load_conversation_history enc cid max_tokens cs w
             = Inr (rev (map (\<lambda>m. (msg_role m, msg_content m)) (take k (newest_first cid cs))))"
    using assms(1) k(2) by (simp add: load_conversation_history_def)
  have e: "newest_first cid cs \<noteq> []
              \<and> max_tokens < int (enc (msg_content (hd (newest_first cid cs))))
              \<longrightarrow> load_conversation_history enc cid max_tokens cs w = Inr []"
    using l k(5) by auto
  have s: "sorted (map (\<lambda>m. - msg_created_at m) (newest_first cid cs))"
    by (simp add: newest_first_def)
  have m: "set (newest_first cid cs) = {m \<in> set (message_rows cs). msg_conversation_id m = cid}"
    by (auto simp: newest_first_def)
  show ?thesis using k(1,3,4) l e s m by blast
qed
theorem load_conversation_history_bounded_witness:
  "fault example_world = None \<and> (0::int) \<le> 20
   \<and> load_conversation_history length 7 20 example_chat example_world
       = Inr [(''user'', ''hello world'')]
   \<and> load_conversation_history length 7 1 example_chat example_world = Inr []"
proof -
  have p: "(0::int) \<le> 20" "(0::int) \<le> 1" by simp_all
  from load_conversation_history_bounded [OF example_world_fault p(1), of 7 example_chat length]
  obtain k where k: "k \<le> length (newest_first 7 example_chat)"
    "load_conversation_history length 7 20 example_chat example_world
       = Inr (rev (map (\<lambda>m. (msg_role m, msg_content m)) (take k (newest_first 7 example_chat))))"
    "k < length (newest_first 7 example_chat) \<longrightarrow>
       20 < (\<Sum>m\<leftarrow>take (Suc k) (newest_first 7 example_chat). int (length (msg_content m)))"
    by blast
  have "k \<noteq> 0" using k(3) by (auto simp: newest_first_example)
  with k(1) have "k = 1" by (simp add: newest_first_example)
  with k(2) have big: "load_conversation_history length 7 20 example_chat example_world
       = Inr [(''user'', ''hello world'')]"
    by (simp add: newest_first_example)
  from load_conversation_history_bounded [OF example_world_fault p(2), of 7 example_chat length]
  have "newest_first 7 example_chat \<noteq> []
          \<and> 1 < int (length (msg_content (hd (newest_first 7 example_chat))))
        \<longrightarrow> load_conversation_history length 7 1 example_chat example_world = Inr []"
    by blast
  then have small: "load_conversation_history length 7 1 example_chat example_world = Inr []"
    by (simp add: newest_first_example)
  show ?thesis using big small example_world_fault by simp
qed
text \<open>
  C4 as stated fails: the only message of the conversation has 11 tokens (one per
  character), the budget is 1, and the message is not included.
\<close>

theorem load_conversation_history_newest_counterexample:
  "newest_first 7 example_chat
     = [\<lparr>msg_id = 8, msg_conversation_id = 7, msg_role = ''user'',
         msg_content = ''hello world'', msg_created_at = 2\<rparr>]
   \<and> (1::int) < int (length ''hello world'')
   \<and> load_conversation_history length 7 1 example_chat example_world = Inr []"
  by (simp add: newest_first_def example_chat_def load_conversation_history_def
        example_world_def)
section \<open>The chat endpoints when the agent fails\<close>

subsection \<open>phase-3\<close>

lemma send_chat_message_rollback:
  assumes "fst (send_chat_message client dyn sp uid req cs w) = HTTPException code"
  shows "fst (snd (send_chat_message client dyn sp uid req cs w)) = cs"
proof (cases "strip (req_message req) = []")
  case True
  then show ?thesis by (simp add: send_chat_message_def)
next
  case ne: False
  obtain r1 w1 where c: "load_or_create_conversation uid (req_conversation_id req) cs w = (r1, w1)"
    by (cases "load_or_create_conversation uid (req_conversation_id req) cs w")
  show ?thesis
  proof (cases r1)
    case None
    with ne c show ?thesis by (simp add: send_chat_message_def)
  next
    case (Some p1)
    obtain conversation cs1 where p1: "p1 = (conversation, cs1)" by (cases p1)
    obtain r2 w2 where u: "add_message (conv_id conversation) ''user''
        (Some (strip (req_message req))) cs1 w1 = (r2, w2)"
      by (cases "add_message (conv_id conversation) ''user''
        (Some (strip (req_message req))) cs1 w1")
    show ?thesis
    proof (cases r2)
      case None
      with ne c Some p1 u show ?thesis by (simp add: send_chat_message_def)
    next
      case m: (Some p2)
      obtain user_message cs2 where p2: "p2 = (user_message, cs2)" by (cases p2)
      show ?thesis
      proof (cases "conversation_history_for conversation user_message
                      (strip (req_message req)) cs2")
        case (Inl e)
        with ne c Some p1 u m p2 show ?thesis by (simp add: send_chat_message_def)
      next
        case h: (Inr history)
        obtain g n w3 where g: "generate_response client dyn sp history uid w2 = (g, n, w3)"
          by (metis prod_cases3)
        show ?thesis
        proof (cases g)
          case (Inl e)
          with ne c Some p1 u m p2 h g show ?thesis by (simp add: send_chat_message_def)
        next
          case (Inr ai_response)
          obtain r3 w4 where a: "add_message (conv_id conversation) ''assistant'' ai_response
              cs2 w3 = (r3, w4)"
            by (cases "add_message (conv_id conversation) ''assistant'' ai_response cs2 w3")
          show ?thesis
          proof (cases r3)
            case None
            with ne c Some p1 u m p2 h g Inr a show ?thesis
              by (simp add: send_chat_message_def)
          next
            case s3: (Some p3)
            with ne c Some p1 u m p2 h g Inr a assms show ?thesis
              by (simp add: send_chat_message_def split: prod.splits)
          qed
        qed
      qed
    qed
  qed
qed
lemma add_conversation_fresh:
  assumes "fault w = None" and "fresh_uuids w cs" and "storable uid"
    and "uid \<in> set (users w)"
  shows "\<exists>c w1. add_conversation uid cs w
                  = (Some (c, cs\<lparr>conversation_rows := conversation_rows cs @ [c]\<rparr>), w1)
               \<and> conv_id c \<in> range (uuids w)
               \<and> fault w1 = None \<and> uuids w1 = uuids w \<and> tasks w1 = tasks w"
  using assms
  by (simp add: add_conversation_def new_conversation_def uuid4_def utcnow_def Let_def
        fresh_uuids_def)
lemma add_message_fresh:
  assumes "fault w = None" and "\<forall>n. uuids w n \<notin> msg_id ` set (message_rows cs)"
    and "storable role" and "storable c"
  shows "\<exists>m w1. add_message cid role (Some c) cs w
                  = (Some (m, cs\<lparr>message_rows := message_rows cs @ [m]\<rparr>), w1)
               \<and> msg_role m = role \<and> msg_content m = c \<and> msg_conversation_id m = cid
               \<and> fault w1 = None \<and> uuids w1 = uuids w \<and> tasks w1 = tasks w"
  using assms
  by (simp add: add_message_def uuid4_def utcnow_def Let_def carried_out_def)
lemma load_or_create_conversation_fresh:
  assumes "fault w = None" and "fresh_uuids w cs" and "storable uid"
    and "uid \<in> set (users w)"
  shows "\<exists>c cs1 w1. load_or_create_conversation uid cid cs w = (Some (c, cs1), w1)
               \<and> message_rows cs1 = message_rows cs
               \<and> (Some (conv_id c) = cid \<or> conv_id c \<in> range (uuids w))
               \<and> fault w1 = None \<and> uuids w1 = uuids w \<and> tasks w1 = tasks w"
proof -
  from add_conversation_fresh [OF assms]
  obtain c w1 where a: "add_conversation uid cs w
                  = (Some (c, cs\<lparr>conversation_rows := conversation_rows cs @ [c]\<rparr>), w1)"
      "conv_id c \<in> range (uuids w)"
      "fault w1 = None" "uuids w1 = uuids w" "tasks w1 = tasks w"
    by blast
  show ?thesis
  proof (cases cid)
    case None
    with a show ?thesis by (simp add: load_or_create_conversation_def)
  next
    case (Some i)
    show ?thesis
    proof (cases "find (\<lambda>c. conv_id c = i \<and> conv_user_id c = uid) (conversation_rows cs)")
      case None
      with Some a assms(1,3) show ?thesis by (simp add: load_or_create_conversation_def)
    next
      case found: (Some c')
      then have "conv_id c' = i" by (auto simp: find_Some_iff)
      with found Some assms(1,3) show ?thesis by (simp add: load_or_create_conversation_def)
    qed
  qed
qed
lemma send_chat_message_agent_raises:
  assumes "\<forall>v. \<exists>e. fst (generate_response client dyn sp
                         [Chat_Message ''user'' (strip (req_message req))] uid v) = Inl e"
    and "strip (req_message req) \<noteq> []" and "fault w = None" and "fresh_uuids w cs"
    and "storable uid" and "storable (req_message req)"
    and "\<forall>m \<in> set (message_rows cs). Some (msg_conversation_id m) \<noteq> req_conversation_id req"
    and "uid \<in> set (users w)"
  shows "fst (send_chat_message client dyn sp uid req cs w) = HTTPException 503"
proof -
  from load_or_create_conversation_fresh [OF assms(3,4,5,8), of "req_conversation_id req"]
  obtain c cs1 w1 where c: "load_or_create_conversation uid (req_conversation_id req) cs w
                              = (Some (c, cs1), w1)"
      "message_rows cs1 = message_rows cs"
      "Some (conv_id c) = req_conversation_id req \<or> conv_id c \<in> range (uuids w)"
      "fault w1 = None" "uuids w1 = uuids w"
    by blast
  have "\<forall>n. uuids w1 n \<notin> msg_id ` set (message_rows cs1)"
    using assms(4) c(2,5) by (simp add: fresh_uuids_def)
  from add_message_fresh [OF c(4) this, of "''user''" "strip (req_message req)" "conv_id c"]
       storable_strip [OF assms(6)]
  obtain m w2 where m: "add_message (conv_id c) ''user'' (Some (strip (req_message req))) cs1 w1
                  = (Some (m, cs1\<lparr>message_rows := message_rows cs1 @ [m]\<rparr>), w2)"
      "msg_conversation_id m = conv_id c"
    by (auto simp: storable_def)
  have none: "filter (\<lambda>r. msg_conversation_id r = conv_id c) (message_rows cs) = []"
  proof -
    have "msg_conversation_id r \<noteq> conv_id c" if "r \<in> set (message_rows cs)" for r
    proof
      assume eq: "msg_conversation_id r = conv_id c"
      from c(3) show False
      proof
        assume "Some (conv_id c) = req_conversation_id req"
        with assms(7) that eq show False by auto
      next
        assume "conv_id c \<in> range (uuids w)"
        then obtain n where "conv_id c = uuids w n" by auto
        moreover have "uuids w n \<notin> msg_conversation_id ` set (message_rows cs)"
          using assms(4) by (simp add: fresh_uuids_def)
        ultimately show False using that eq by (metis imageI)
      qed
    qed
    then show ?thesis by (auto simp: filter_empty_conv)
  qed
  have h: "conversation_history_for c m (strip (req_message req))
              (cs1\<lparr>message_rows := message_rows cs1 @ [m]\<rparr>)
           = Inr [Chat_Message ''user'' (strip (req_message req))]"
    by (simp add: conversation_history_for_def c(2) none m(2))
  obtain g n w3 where g: "generate_response client dyn sp
                            [Chat_Message ''user'' (strip (req_message req))] uid w2 = (g, n, w3)"
    by (metis prod_cases3)
  with assms(1) obtain e where "g = Inl e" by (metis fst_conv)
  with assms(2) c(1) m(1) h g show ?thesis by (simp add: send_chat_message_def)
qed
text \<open>
  A request that continues a conversation holding a stored message ends with status 500
  at the endpoint of phase-3, whatever the provider does: the loop over the rows read
  raises on the stored row, and the agent is not called.
\<close>

lemma send_chat_message_followup:
  "fst (send_chat_message client dyn sp ''alice'' followup_request example_chat example_world)
     = HTTPException 500"
  by (simp add: send_chat_message_def followup_request_def strip_def is_space_def
        load_or_create_conversation_def example_chat_def example_world_def storable_def
        add_message_def uuid4_def utcnow_def Let_def carried_out_def
        conversation_history_for_def role_value_def)
lemma unreachable_raises:
  "\<forall>v. \<exists>e. fst (generate_response unreachable dyn sp h uid v) = Inl e"
  by (simp add: generate_response_def agentic_loop.simps unreachable_def max_iterations_def)
lemma flaky_generate:
  "generate_response flaky_stub no_coercion [] [Chat_Message ''user'' m] ''alice'' w
     = (Inl APIError, 2, snd (add_task ''alice'' (Some ''Buy eggs'') None w))"
  by (simp add: generate_response_def agentic_loop.simps flaky_stub_def max_iterations_def
        json_loads_def invoke_tool_def call_add_task_def arg_def split: prod.splits)
subsection \<open>phase-03\<close>

lemma get_or_create_conversation_messages:
  "get_or_create_conversation uid cid cs w = (r, cs1, w1) \<Longrightarrow>
     message_rows cs1 = message_rows cs"
  by (auto simp: get_or_create_conversation_def add_conversation_def Let_def
           new_conversation_def uuid4_def utcnow_def
           split: option.splits if_splits prod.splits)
lemma store_message_rows:
  "store_message cid role content cs w = (Inr m, cs1, w1) \<Longrightarrow>
     message_rows cs1 = message_rows cs @ [m] \<and> msg_role m = role \<and> content = Some (msg_content m)"
  by (auto simp: store_message_def add_message_def Let_def uuid4_def utcnow_def
           split: option.splits if_splits prod.splits)
lemma invoke_agent_raises_gemini:
  assumes "invoke_agent (Some client) tf sp uid h m ts w = (Inl e, w')"
  shows "e = GeminiAPIError"
  using assms
  by (simp add: invoke_agent_def Let_def split: sum.splits if_splits prod.splits)
lemma get_or_create_conversation_fresh:
  assumes "fault w = None" and "fresh_uuids w cs" and "storable uid"
    and "\<forall>c \<in> set (conversation_rows cs). Some (conv_id c) = cid \<longrightarrow> conv_user_id c = uid"
    and "uid \<in> set (users w)"
  shows "\<exists>c cs1 w1. get_or_create_conversation uid cid cs w = (Inr c, cs1, w1)
               \<and> message_rows cs1 = message_rows cs
               \<and> fault w1 = None \<and> uuids w1 = uuids w"
proof -
  let ?byid = "case cid of None \<Rightarrow> None
                | Some i \<Rightarrow> find (\<lambda>c. conv_id c = i) (conversation_rows cs)"
  show ?thesis
  proof (cases ?byid)
    case (Some c)
    then have "c \<in> set (conversation_rows cs) \<and> Some (conv_id c) = cid"
      by (auto simp: find_Some_iff split: option.splits)
    with assms(4) have "conv_user_id c = uid" by blast
    with Some assms(1) show ?thesis by (simp add: get_or_create_conversation_def)
  next
    case None
    show ?thesis
    proof (cases "find (\<lambda>c. conv_user_id c = uid) (conversation_rows cs)")
      case (Some c)
      with None assms(1,3) show ?thesis by (simp add: get_or_create_conversation_def)
    next
      case nouser: None
      from add_conversation_fresh [OF assms(1,2,3,5)]
      obtain c w1 where "add_conversation uid cs w
                  = (Some (c, cs\<lparr>conversation_rows := conversation_rows cs @ [c]\<rparr>), w1)"
        "fault w1 = None" "uuids w1 = uuids w" by blast
      with None nouser assms(1,3) show ?thesis by (simp add: get_or_create_conversation_def)
    qed
  qed
qed
lemma chat_endpoint_agent_raises:
  assumes "\<forall>h v. \<exists>e. fst (invoke_agent (Some client) tf sp uid h (req_message req)
                            (Some get_tool_definitions) v) = Inl e"
    and "length (req_message req) \<le> 10000" and "fault w = None" and "fresh_uuids w cs"
    and "storable uid" and "storable (req_message req)"
    and "\<forall>c \<in> set (conversation_rows cs).
           Some (conv_id c) = req_conversation_id req \<longrightarrow> conv_user_id c = uid"
    and "uid \<in> set (users w)"
  shows "fst (chat_endpoint (Some client) tf enc sp uid req cs w) = HTTP_Error 503"
proof -
  from get_or_create_conversation_fresh [OF assms(3,4,5,7,8)]
  obtain c cs1 w1 where c: "get_or_create_conversation uid (req_conversation_id req) cs w
                              = (Inr c, cs1, w1)"
      "message_rows cs1 = message_rows cs" "fault w1 = None" "uuids w1 = uuids w"
    by blast
  obtain h where h: "load_conversation_history enc (conv_id c) 2000 cs1 w1 = Inr h"
    using c(3) by (simp add: load_conversation_history_def)
  have "\<forall>n. uuids w1 n \<notin> msg_id ` set (message_rows cs1)"
    using assms(4) c(2,4) by (simp add: fresh_uuids_def)
  from add_message_fresh [OF c(3) this, of "''user''" "req_message req" "conv_id c"] assms(6)
  obtain m w2 where "add_message (conv_id c) ''user'' (Some (req_message req)) cs1 w1
                  = (Some (m, cs1\<lparr>message_rows := message_rows cs1 @ [m]\<rparr>), w2)"
    by (auto simp: storable_def)
  then have s: "store_message (conv_id c) ''user'' (Some (req_message req)) cs1 w1
             = (Inr m, cs1\<lparr>message_rows := message_rows cs1 @ [m]\<rparr>, w2)"
    by (simp add: store_message_def)
  obtain g w3 where g: "invoke_agent (Some client) tf sp uid h (req_message req)
                            (Some get_tool_definitions) w2 = (g, w3)"
    by (cases "invoke_agent (Some client) tf sp uid h (req_message req)
                            (Some get_tool_definitions) w2")
  with assms(1) obtain e where e: "g = Inl e" by (metis fst_conv)
  with g have "e = GeminiAPIError" by (auto dest: invoke_agent_raises_gemini)
  with assms(2) c(1) h s g e show ?thesis by (simp add: chat_endpoint_def)
qed
lemma chat_endpoint_503:
  assumes "fst (chat_endpoint gc tf enc sp uid req cs w) = HTTP_Error 503"
  shows "\<exists>user_row. message_rows (fst (snd (chat_endpoint gc tf enc sp uid req cs w)))
                       = message_rows cs @ [user_row]
           \<and> msg_role user_row = ''user'' \<and> msg_content user_row = req_message req"
proof -
  have len: "\<not> length (req_message req) > 10000"
    using assms by (auto simp: chat_endpoint_def)
  obtain r1 cs1 w1 where c: "get_or_create_conversation uid (req_conversation_id req) cs w
                              = (r1, cs1, w1)"
    by (metis prod_cases3)
  note m1 = get_or_create_conversation_messages [OF c]
  show ?thesis
  proof (cases r1)
    case (Inl e)
    with len c assms show ?thesis by (simp add: chat_endpoint_def split: if_splits)
  next
    case (Inr conversation)
    show ?thesis
    proof (cases "load_conversation_history enc (conv_id conversation) 2000 cs1 w1")
      case (Inl e)
      with len c Inr assms show ?thesis by (simp add: chat_endpoint_def)
    next
      case h: (Inr history)
      obtain r2 cs2 w2 where s: "store_message (conv_id conversation) ''user''
                       (Some (req_message req)) cs1 w1 = (r2, cs2, w2)"
        by (metis prod_cases3)
      show ?thesis
      proof (cases r2)
        case (Inl e)
        with len c Inr h s assms show ?thesis by (simp add: chat_endpoint_def)
      next
        case u: (Inr user_row)
        note m2 = store_message_rows [OF s [unfolded u]]
        obtain g w3 where g: "invoke_agent gc tf sp uid history (req_message req)
                           (Some get_tool_definitions) w2 = (g, w3)"
          by (cases "invoke_agent gc tf sp uid history (req_message req)
                           (Some get_tool_definitions) w2")
        show ?thesis
        proof (cases g)
          case (Inl e)
          with len c Inr h s u g have "fst (snd (chat_endpoint gc tf enc sp uid req cs w)) = cs2"
            by (simp add: chat_endpoint_def)
          with m1 m2 show ?thesis by auto
        next
          case a: (Inr agent_response)
          obtain r3 cs3 w4 where t: "store_message (conv_id conversation) ''assistant''
                               (resp_content agent_response) cs2 w3 = (r3, cs3, w4)"
            by (metis prod_cases3)
          with len c Inr h s u g a assms show ?thesis
            by (cases r3) (simp_all add: chat_endpoint_def)
        qed
      qed
    qed
  qed
qed
lemma unreachable03_raises:
  "\<forall>h v. \<exists>e. fst (invoke_agent (Some unreachable03) tf sp uid h m ts v) = Inl e"
  by (simp add: invoke_agent_def unreachable03_def)
lemma fresh_example: "fresh_uuids example_world example_chat"
  by (simp add: fresh_uuids_def example_world_def example_chat_def)
lemma strip_example_request: "strip (req_message example_request) \<noteq> []"
  by (simp add: example_request_def strip_def is_space_def)
lemma storable_example_request: "storable (req_message example_request)"
  by (simp add: example_request_def storable_def)
subsection \<open>Both endpoints\<close>

text \<open>
  C3, as amended. When the agent raises, the caller of either endpoint receives status
  503 and no assistant message is written. At the endpoint of phase-3 a response 503
  leaves the assistant messages of the store as they were, and it is the response
  whenever the agent raises on the history of the request: the message is not blank,
  the store carries out the statements of the endpoint (it is reachable, the owner id
  is that of a user, the owner id and the message are free of the code point 0, the ids
  drawn are fresh), and the request opens a conversation or names one without stored
  messages. At the endpoint of
  phase-03, which commits the user's message before the agent runs, a response 503
  leaves the stored messages as those before the request followed by the user's message,
  and it is the response whenever the agent raises, given a configured client, a store
  that carries out the statements, and a request that names no conversation of another
  owner. Nothing is said about the task table, to which the tools commit in sessions of
  their own.
\<close>

theorem agent_failure_outcome:
  "(fst (send_chat_message client dyn sp uid req cs w) = HTTPException 503
      \<longrightarrow> filter (\<lambda>m. msg_role m = ''assistant'')
            (message_rows (fst (snd (send_chat_message client dyn sp uid req cs w))))
          = filter (\<lambda>m. msg_role m = ''assistant'') (message_rows cs))
   \<and> ((\<forall>v. \<exists>e. fst (generate_response client dyn sp
                        [Chat_Message ''user'' (strip (req_message req))] uid v) = Inl e)
        \<and> strip (req_message req) \<noteq> [] \<and> fault w = None \<and> fresh_uuids w cs
        \<and> uid \<in> set (users w) \<and> storable uid \<and> storable (req_message req)
        \<and> (\<forall>m \<in> set (message_rows cs).
              Some (msg_conversation_id m) \<noteq> req_conversation_id req)
      \<longrightarrow> fst (send_chat_message client dyn sp uid req cs w) = HTTPException 503)
   \<and> (fst (chat_endpoint gc tf enc sp uid req cs w) = HTTP_Error 503
      \<longrightarrow> (\<exists>user_row.
             message_rows (fst (snd (chat_endpoint gc tf enc sp uid req cs w)))
               = message_rows cs @ [user_row]
           \<and> msg_role user_row = ''user'' \<and> msg_content user_row = req_message req))
   \<and> ((\<forall>h v. \<exists>e. fst (invoke_agent (Some client03) tf sp uid h (req_message req)
                           (Some get_tool_definitions) v) = Inl e)
        \<and> length (req_message req) \<le> 10000 \<and> fault w = None \<and> fresh_uuids w cs
        \<and> uid \<in> set (users w) \<and> storable uid \<and> storable (req_message req)
        \<and> (\<forall>c \<in> set (conversation_rows cs).
              Some (conv_id c) = req_conversation_id req \<longrightarrow> conv_user_id c = uid)
      \<longrightarrow> fst (chat_endpoint (Some client03) tf enc sp uid req cs w) = HTTP_Error 503)"
proof -
  have "filter (\<lambda>m. msg_role m = ''assistant'')
            (message_rows (fst (snd (send_chat_message client dyn sp uid req cs w))))
          = filter (\<lambda>m. msg_role m = ''assistant'') (message_rows cs)"
    if "fst (send_chat_message client dyn sp uid req cs w) = HTTPException 503"
    using send_chat_message_rollback [OF that] by simp
  then show ?thesis
    using send_chat_message_agent_raises [of client dyn sp req uid w cs]
          chat_endpoint_503 [of gc tf enc sp uid req cs w]
          chat_endpoint_agent_raises [of client03 tf sp uid req w cs enc]
    by blast
qed
theorem agent_failure_outcome_witness:
  "strip (req_message example_request) \<noteq> [] \<and> fault example_world = None
   \<and> fresh_uuids example_world example_chat \<and> ''alice'' \<in> set (users example_world)
   \<and> storable ''alice'' \<and> storable (req_message example_request)
   \<and> req_conversation_id example_request = None
   \<and> fst (send_chat_message unreachable no_coercion [] ''alice'' example_request
            example_chat example_world) = HTTPException 503
   \<and> filter (\<lambda>m. msg_role m = ''assistant'')
         (message_rows (fst (snd (send_chat_message unreachable no_coercion [] ''alice''
            example_request example_chat example_world)))) = []
   \<and> fst (chat_endpoint (Some unreachable03) no_tools length [] ''alice'' example_request
            example_chat example_world) = HTTP_Error 503
   \<and> (\<exists>user_row.
         message_rows (fst (snd (chat_endpoint (Some unreachable03) no_tools length []
                                   ''alice'' example_request example_chat example_world)))
           = message_rows example_chat @ [user_row]
       \<and> msg_role user_row = ''user'' \<and> msg_content user_row = ''Add a task to buy eggs'')"
proof -
  have own: "\<forall>c \<in> set (conversation_rows example_chat).
              Some (conv_id c) = req_conversation_id example_request \<longrightarrow> conv_user_id c = ''alice''"
    by (simp add: example_chat_def example_request_def)
  have new: "\<forall>m \<in> set (message_rows example_chat).
              Some (msg_conversation_id m) \<noteq> req_conversation_id example_request"
    by (simp add: example_request_def)
  have opens: "req_conversation_id example_request = None"
    by (simp add: example_request_def)
  have len: "length (req_message example_request) \<le> 10000"
    by (simp add: example_request_def)
  have reg: "''alice'' \<in> set (users example_world)"
    by (simp add: example_world_def)
  note t = agent_failure_outcome [of unreachable no_coercion "[]" "''alice''" example_request
      example_chat example_world "Some unreachable03" no_tools length unreachable03]
  have a: "fst (send_chat_message unreachable no_coercion [] ''alice'' example_request
            example_chat example_world) = HTTPException 503"
    using t unreachable_raises strip_example_request example_world_fault fresh_example
          storable_alice storable_example_request new reg
    by blast
  have b: "fst (chat_endpoint (Some unreachable03) no_tools length [] ''alice'' example_request
            example_chat example_world) = HTTP_Error 503"
    using t unreachable03_raises len example_world_fault fresh_example own
          storable_alice storable_example_request reg
    by blast
  have m: "req_message example_request = ''Add a task to buy eggs''"
    by (simp add: example_request_def)
  have n: "filter (\<lambda>m. msg_role m = ''assistant'') (message_rows example_chat) = []"
    by (simp add: example_chat_def)
  have c: "filter (\<lambda>m. msg_role m = ''assistant'')
         (message_rows (fst (snd (send_chat_message unreachable no_coercion [] ''alice''
            example_request example_chat example_world)))) = []"
    using t a unfolding n by blast
  have d: "\<exists>user_row.
         message_rows (fst (snd (chat_endpoint (Some unreachable03) no_tools length []
                                   ''alice'' example_request example_chat example_world)))
           = message_rows example_chat @ [user_row]
       \<and> msg_role user_row = ''user'' \<and> msg_content user_row = ''Add a task to buy eggs''"
    using t b unfolding m by blast
  show ?thesis
    using a b c d opens strip_example_request example_world_fault fresh_example
          storable_alice storable_example_request reg
    by blast
qed
text \<open>
  C3 as stated fails at the endpoint of phase-3: the provider asks for a new task and
  cannot be reached afterwards. The caller receives 503 and the task the tool added
  stays in the store.
\<close>

theorem agent_failure_state_counterexample:
  "fst (send_chat_message flaky_stub no_coercion [] ''alice'' example_request
          example_chat example_world) = HTTPException 503
   \<and> map title (tasks (snd (snd (send_chat_message flaky_stub no_coercion [] ''alice''
          example_request example_chat example_world)))) = [''Buy milk'', ''Buy eggs'']
   \<and> map title (tasks example_world) = [''Buy milk'']"
  by (simp add: send_chat_message_def example_request_def strip_def is_space_def
        load_or_create_conversation_def add_conversation_def new_conversation_def
        add_message_def uuid4_def utcnow_def example_world_def example_chat_def Let_def
        conversation_history_for_def flaky_generate add_task_def validate_user_id_def
        validate_title_def success_response_def carried_out_def texts_of_def
        option_texts_def storable_def)


end

